theory Spec2Isabelle
  imports Main "HOL-Library.Word"
begin

section \<open>QRFileTransfer: the transfer protocol of \<^verbatim>\<open>js/QRFileTransfer.js\<close>\<close>

text \<open>
  The development embeds the classes \<^verbatim>\<open>QRFileTransfer.Utils\<close>,
  \<^verbatim>\<open>QRFileTransfer.FileWorker\<close> and the observation handler of
  \<^verbatim>\<open>QRFileTransfer.Core\<close>. Conventions:
  \<^item> JavaScript strings are \<open>string\<close> (code units below 256); \<^verbatim>\<open>null\<close> is \<open>None\<close>.
  \<^item> Numbers are unbounded integers. The chunk size of a reader is positive (the page
    offers a fixed list of sizes, 128 by default); for a zero size JavaScript's quotient is
    \<^verbatim>\<open>Infinity\<close> or \<^verbatim>\<open>NaN\<close>, which the integer model does not represent, so the
    statements that depend on the chunk count of a reader carry a positive chunk size.
  \<^item> A method that mutates \<^verbatim>\<open>this\<close> takes the object and returns it updated. A method
    that can throw, or whose promise may never resolve, also returns an \<open>outcome\<close>; the
    state returned with a failure is the state at the point of failure.
  \<^item> The \<^verbatim>\<open>async\<close> handler is run to its end before the next observation.
  \<^item> The browser's primitives (SHA-256, the text encoder, the Base64 of the data URL,
    \<^verbatim>\<open>atob\<close>, \<^verbatim>\<open>JSON\<close> on the meta information) are the fields of a
    \<open>platform\<close> record passed to every function that calls them.
  \<^item> The payload of a QR image is modelled after \<^verbatim>\<open>JSON.parse\<close>: an observation is
    \<open>None\<close> when the raw text is null, blank, not JSON or lacks one of the three
    fields, and \<open>Some\<close> of the three fields (an integer tag, a string body, an integer
    time stamp) otherwise. A payload that parses to \<^verbatim>\<open>null\<close> makes the handler throw on
    \<^verbatim>\<open>jsObj["ckTId"]\<close> before it changes anything; it is not among the observations.
\<close>

subsection \<open>Data\<close>

type_synonym byte = "8 word"

datatype exn = TypeError | InvalidCharacterError

datatype outcome = Returned | Threw exn | Stalled

text \<open>The view \<^verbatim>\<open>help\<close> is named \<open>helpView\<close> here.\<close>

datatype ViewOption = home | helpView | sendFile | receiveFile

datatype ChunkType =
  metaInfo | metaInfoReceived | okNext | evalSha256 | invalidSha256 | completed | unknown

fun chunkTypeId :: "ChunkType \<Rightarrow> int" where
  "chunkTypeId metaInfo = 0"
| "chunkTypeId metaInfoReceived = 1"
| "chunkTypeId okNext = 2"
| "chunkTypeId evalSha256 = 3"
| "chunkTypeId invalidSha256 = 4"
| "chunkTypeId completed = 50"
| "chunkTypeId unknown = 100"

text \<open>The object rendered into a QR image by \<^verbatim>\<open>_updateQRImage\<close>.\<close>

record qrData =
  ckTId :: int
  bd :: string
  dt :: int

text \<open>The object built by \<^verbatim>\<open>FileWorker.metaInfo()\<close> and read by \<^verbatim>\<open>createWriter\<close>.\<close>

record MetaInfo =
  fileName :: "string option"
  fileType :: "string option"
  metaFileSize :: int
  metaFileChunks :: int
  metaChunkSize :: int

text \<open>
  What \<^verbatim>\<open>JSON.parse\<close> returns for the body of a \<^verbatim>\<open>meta_info\<close> envelope: \<^verbatim>\<open>null\<close>, or a
  value of which \<^verbatim>\<open>createWriter\<close> reads the five properties.
\<close>

datatype json = JsonNull | JsonObject MetaInfo

text \<open>A \<^verbatim>\<open>File\<close> picked by the user: its size is the length of its content.\<close>

record File =
  name :: string
  mimeType :: string
  content :: "byte list"

record FileWorker =
  readMode :: bool
  inputFile :: "File option"
  chunkSize :: int
  inputFileType :: "string option"
  inputFileName :: "string option"
  fileSize :: int
  fileChunks :: int
  curChunk :: int
  lastChunkBlob :: "byte list option"
  lastChunkBase64 :: "string option"
  lastChunkSha256 :: "string option"
  writerBuffer :: "byte list list"
  writerUrl :: "byte list option"

text \<open>A file handed to the browser by the click on the download link.\<close>

record Download =
  downloadName :: "string option"
  downloadType :: "string option"
  downloadBytes :: "byte list"

text \<open>
  The primitives of the browser: \<^verbatim>\<open>crypto.subtle.digest('SHA-256', _)\<close>,
  \<^verbatim>\<open>TextEncoder.encode\<close>, the data URL that \<^verbatim>\<open>FileReader.readAsDataURL\<close> produces for
  a Blob, \<^verbatim>\<open>window.atob\<close> (\<open>None\<close> when it throws), \<^verbatim>\<open>JSON.stringify\<close> of the meta
  information, \<^verbatim>\<open>JSON.parse\<close> of a meta-information body (\<open>None\<close> when it throws,
  \<open>Some JsonNull\<close> for the text \<^verbatim>\<open>null\<close>; a value that lacks one of the five properties
  or carries one of another type is outside the model), and whether the QR view holds an
  \<^verbatim>\<open>img\<close> element.
\<close>

record platform =
  digestSHA256 :: "byte list \<Rightarrow> byte list"
  textEncode :: "string \<Rightarrow> byte list"
  readAsDataURL :: "byte list \<Rightarrow> string"
  atob :: "string \<Rightarrow> string option"
  JSON_stringify :: "MetaInfo option \<Rightarrow> string"
  JSON_parse :: "string \<Rightarrow> json option"
  qrViewHasImg :: bool

text \<open>
  The static fields of \<^verbatim>\<open>QRFileTransfer.Core\<close> that the protocol reads or writes,
  with the effects on the page that matter: the object shown as QR image (\<open>None\<close>
  when the image is cleared), the files downloaded, the camera session
  (\<^verbatim>\<open>QRDecoder._scanning\<close>) and the pending two-second timer of the Sender.
\<close>

record Core =
  displayedView :: "ViewOption option"
  fileWorker :: "FileWorker option"
  isRunning :: bool
  lastReceivedDatetime :: "int option"
  qrImage :: "qrData option"
  downloads :: "Download list"
  scanning :: bool
  stopSendingTimer :: bool

subsection \<open>\<^verbatim>\<open>QRFileTransfer.Utils\<close>\<close>

text \<open>\<^verbatim>\<open>String.prototype.trim\<close>: white space and line terminators below 256.\<close>

definition isWhiteSpace :: "char \<Rightarrow> bool" where
  "isWhiteSpace c = (let n = (of_char c :: nat) in (9 \<le> n \<and> n \<le> 13) \<or> n = 32 \<or> n = 160)"

definition trim :: "string \<Rightarrow> string" where
  "trim s = rev (dropWhile isWhiteSpace (rev (dropWhile isWhiteSpace s)))"

definition hexDigit :: "nat \<Rightarrow> char" where
  "hexDigit n = ''0123456789abcdef'' ! (n mod 16)"

text \<open>\<^verbatim>\<open>b.toString(16)\<close> for an element of a \<^verbatim>\<open>Uint8Array\<close>.\<close>

definition toString16 :: "byte \<Rightarrow> string" where
  "toString16 b =
     (if unat b < 16 then [hexDigit (unat b)]
      else [hexDigit (unat b div 16), hexDigit (unat b)])"

definition padStart2 :: "string \<Rightarrow> string" where
  "padStart2 s = replicate (2 - length s) CHR ''0'' @ s"

definition sha256 :: "platform \<Rightarrow> string option \<Rightarrow> string option" where
  "sha256 P message =
     (case message of
        None \<Rightarrow> None
      | Some m \<Rightarrow>
          let msgUint8 = textEncode P m;
              hashArray = digestSHA256 P msgUint8;
              hashHex = concat (map (\<lambda>b. padStart2 (toString16 b)) hashArray)
          in Some (trim hashHex))"

text \<open>
  \<^verbatim>\<open>reader.result.split(',')[1]\<close>: the text between the first and the second comma,
  undefined when the text has no comma.
\<close>

definition splitComma1 :: "string \<Rightarrow> string option" where
  "splitComma1 s =
     (let rest = dropWhile (\<lambda>c. c \<noteq> CHR '','') s
      in if rest = [] then None else Some (takeWhile (\<lambda>c. c \<noteq> CHR '','') (tl rest)))"

text \<open>
  \<^verbatim>\<open>blobAsBase64\<close>: the promise resolves with the trimmed Base64 part of the data URL;
  when the URL has no comma the \<^verbatim>\<open>onloadend\<close> callback throws and the promise never
  resolves (\<open>None\<close>).
\<close>

definition blobAsBase64 :: "platform \<Rightarrow> byte list \<Rightarrow> string option" where
  "blobAsBase64 P blob = map_option trim (splitComma1 (readAsDataURL P blob))"

text \<open>\<^verbatim>\<open>bufferArrayFromBase64\<close>: \<open>None\<close> when \<^verbatim>\<open>atob\<close> throws.\<close>

definition bufferArrayFromBase64 :: "platform \<Rightarrow> string \<Rightarrow> byte list option" where
  "bufferArrayFromBase64 P base64 = map_option (map of_char) (atob P base64)"

subsection \<open>\<^verbatim>\<open>QRFileTransfer.FileWorker\<close>\<close>

text \<open>The field initialisers of the class.\<close>

definition newFileWorker :: FileWorker where
  "newFileWorker =
     \<lparr> readMode = True, inputFile = None, chunkSize = 128, inputFileType = None,
       inputFileName = None, fileSize = 0, fileChunks = 0, curChunk = 0,
       lastChunkBlob = None, lastChunkBase64 = None, lastChunkSha256 = None,
       writerBuffer = [], writerUrl = None \<rparr>"

text \<open>\<^verbatim>\<open>Math.ceil(a / b)\<close> on integers, for \<open>b \<noteq> 0\<close>.\<close>

definition mathCeilDiv :: "int \<Rightarrow> int \<Rightarrow> int" where
  "mathCeilDiv a b = - ((- a) div b)"

text \<open>
  \<^verbatim>\<open>updateChunkSize\<close>; the extra argument of \<^verbatim>\<open>Math.ceil\<close> is ignored by JavaScript.
  It is only called on a reader that holds its file; without a file the size would be
  stored before the access to \<^verbatim>\<open>_inputFile.size\<close> throws.
\<close>

definition updateChunkSize :: "int \<Rightarrow> FileWorker \<Rightarrow> FileWorker" where
  "updateChunkSize newSize w =
     (if readMode w = False then w
      else case inputFile w of
        None \<Rightarrow> w\<lparr>chunkSize := newSize\<rparr>
      | Some f \<Rightarrow>
          w\<lparr>chunkSize := newSize,
            fileChunks := mathCeilDiv (int (length (content f))) newSize\<rparr>)"

definition createReader :: "File \<Rightarrow> FileWorker" where
  "createReader file =
     (let worker = newFileWorker
          \<lparr> inputFile := Some file,
            inputFileType :=
              (if length (trim (mimeType file)) = 0 then Some ''application/octet-stream''
               else Some (mimeType file)),
            inputFileName := Some (name file),
            fileSize := int (length (content file)) \<rparr>
      in (updateChunkSize 128 worker)\<lparr>readMode := True\<rparr>)"

text \<open>
  \<^verbatim>\<open>createWriter\<close> on the five properties of its argument. On \<^verbatim>\<open>null\<close> its first
  property access throws; that is the branch \<open>JsonNull\<close> of the caller,
  \<open>onQRDataReceivedReceiveFile\<close>.
\<close>

definition createWriter :: "MetaInfo \<Rightarrow> FileWorker" where
  "createWriter senderMetaInfo =
     newFileWorker
       \<lparr> inputFileType := fileType senderMetaInfo,
         inputFileName := fileName senderMetaInfo,
         fileSize := metaFileSize senderMetaInfo,
         chunkSize := metaChunkSize senderMetaInfo,
         fileChunks := metaFileChunks senderMetaInfo,
         readMode := False \<rparr>"

definition metaInfoOf :: "FileWorker \<Rightarrow> MetaInfo option" where
  "metaInfoOf w =
     (if readMode w = True \<and> inputFile w = None then None
      else Some \<lparr> fileName = inputFileName w, fileType = inputFileType w,
                  metaFileSize = fileSize w, metaFileChunks = fileChunks w,
                  metaChunkSize = chunkSize w \<rparr>)"

text \<open>\<^verbatim>\<open>Blob.slice(start, end)\<close>: a negative bound counts from the end, and both are clamped.\<close>

definition blobSlice :: "byte list \<Rightarrow> int \<Rightarrow> int \<Rightarrow> byte list" where
  "blobSlice blob startPos endPos =
     (let len = int (length blob);
          relativeStart = (if startPos < 0 then max (len + startPos) 0 else min startPos len);
          relativeEnd = (if endPos < 0 then max (len + endPos) 0 else min endPos len);
          span = max (relativeEnd - relativeStart) 0
      in take (nat span) (drop (nat relativeStart) blob))"

definition readNextChunk :: "platform \<Rightarrow> FileWorker \<Rightarrow> outcome \<times> FileWorker" where
  "readNextChunk P w =
     (if readMode w = False then (Returned, w)
      else case inputFile w of
        None \<Rightarrow>
          (Returned, w\<lparr>lastChunkBlob := None, lastChunkBase64 := None, lastChunkSha256 := None\<rparr>)
      | Some f \<Rightarrow>
          if curChunk w \<ge> fileChunks w then
            (Returned, w\<lparr>lastChunkBlob := None, lastChunkBase64 := None, lastChunkSha256 := None\<rparr>)
          else
            let offset = curChunk w * chunkSize w;
                blob = blobSlice (content f) offset (offset + chunkSize w);
                w1 = w\<lparr>lastChunkBlob := Some blob\<rparr>
            in case blobAsBase64 P blob of
                 None \<Rightarrow> (Stalled, w1)
               | Some b64 \<Rightarrow>
                   (Returned,
                    w1\<lparr>lastChunkBase64 := Some b64,
                       lastChunkSha256 := sha256 P (Some b64),
                       curChunk := curChunk w1 + 1\<rparr>))"

definition writerSetPendingChunk :: "platform \<Rightarrow> string \<Rightarrow> FileWorker \<Rightarrow> outcome \<times> FileWorker" where
  "writerSetPendingChunk P base64Chunk w =
     (if readMode w = True then (Returned, w)
      else case bufferArrayFromBase64 P (trim base64Chunk) of
        None \<Rightarrow> (Threw InvalidCharacterError, w)
      | Some lastChunkUInt8Array \<Rightarrow>
          (Returned,
           w\<lparr>lastChunkBlob := Some lastChunkUInt8Array,
             lastChunkBase64 := Some base64Chunk,
             lastChunkSha256 := sha256 P (Some base64Chunk)\<rparr>))"

definition writerCommitPendingChunk :: "FileWorker \<Rightarrow> FileWorker" where
  "writerCommitPendingChunk w =
     (if readMode w = True then w
      else case lastChunkBlob w of
        None \<Rightarrow> w
      | Some blob \<Rightarrow>
          w\<lparr>writerBuffer := writerBuffer w @ [blob],
            lastChunkBlob := None, lastChunkBase64 := None, lastChunkSha256 := None,
            curChunk := curChunk w + 1\<rparr>)"

text \<open>
  \<^verbatim>\<open>_writerCreateDownloadFile\<close>: the Blob built from the buffer is the concatenation of
  its parts. A reader returns \<^verbatim>\<open>undefined\<close> (\<open>None\<close>).
\<close>

definition writerCreateDownloadFile :: "FileWorker \<Rightarrow> (Download \<times> FileWorker) option" where
  "writerCreateDownloadFile w =
     (if readMode w = True then None
      else
        let resultingFileBlob = concat (writerBuffer w)
        in Some (\<lparr> downloadName = inputFileName w, downloadType = inputFileType w,
                    downloadBytes = resultingFileBlob \<rparr>,
                 w\<lparr>writerUrl := Some resultingFileBlob\<rparr>))"

subsection \<open>\<^verbatim>\<open>QRFileTransfer.Core\<close>\<close>

definition isSenderReceiverView :: "Core \<Rightarrow> bool" where
  "isSenderReceiverView c =
     (displayedView c = Some sendFile \<or> displayedView c = Some receiveFile)"

text \<open>
  \<^verbatim>\<open>_updateQRImage(chunkType, input)\<close>; \<open>now\<close> is the value of \<^verbatim>\<open>Date.now()\<close>.
  With a null input the image is cleared when the view holds an \<^verbatim>\<open>img\<close> element;
  otherwise \<^verbatim>\<open>chunkType.id\<close> or \<^verbatim>\<open>input.trim()\<close> throws on null. The QR library is
  taken to render every payload it is given.
\<close>

definition updateQRImage ::
  "platform \<Rightarrow> int \<Rightarrow> ChunkType option \<Rightarrow> string option \<Rightarrow> Core \<Rightarrow> outcome \<times> Core" where
  "updateQRImage P now chunkType input c =
     (if isSenderReceiverView c = False then (Returned, c)
      else if input = None \<and> qrViewHasImg P then (Returned, c\<lparr>qrImage := None\<rparr>)
      else case chunkType of
        None \<Rightarrow> (Threw TypeError, c)
      | Some t \<Rightarrow>
          (case input of
             None \<Rightarrow> (Threw TypeError, c)
           | Some i \<Rightarrow>
               (Returned,
                c\<lparr>qrImage := Some \<lparr> ckTId = chunkTypeId t, bd = trim i, dt = now \<rparr>\<rparr>)))"

definition chunkTypeFromId :: "int \<Rightarrow> ChunkType" where
  "chunkTypeFromId i =
     (if i = 0 then metaInfo
      else if i = 1 then metaInfoReceived
      else if i = 2 then okNext
      else if i = 3 then evalSha256
      else if i = 4 then invalidSha256
      else if i = 50 then completed
      else unknown)"

text \<open>\<^verbatim>\<open>_reset\<close>; the labels it rewrites are not modelled.\<close>

definition reset :: "platform \<Rightarrow> int \<Rightarrow> Core \<Rightarrow> outcome \<times> Core" where
  "reset P now c = updateQRImage P now None None (c\<lparr>isRunning := False, fileWorker := None\<rparr>)"

text \<open>
  \<^verbatim>\<open>setQRCodeViewer\<close> empties the QR view of the displayed view; \<^verbatim>\<open>_setupSender\<close> and
  \<^verbatim>\<open>_setupReceiver\<close> then reset the shared state. With no displayed view the access
  to \<^verbatim>\<open>_displayedView.qrViewId\<close> throws.
\<close>

definition setQRCodeViewer :: "Core \<Rightarrow> outcome \<times> Core" where
  "setQRCodeViewer c =
     (case displayedView c of
        None \<Rightarrow> (Threw TypeError, c)
      | Some v \<Rightarrow> (Returned, if isSenderReceiverView c then c\<lparr>qrImage := None\<rparr> else c))"

definition setupSender :: "platform \<Rightarrow> int \<Rightarrow> Core \<Rightarrow> outcome \<times> Core" where
  "setupSender P now c =
     (case setQRCodeViewer c of
        (Returned, c1) \<Rightarrow> reset P now c1
      | (ou, c1) \<Rightarrow> (ou, c1))"

definition setupReceiver :: "platform \<Rightarrow> int \<Rightarrow> Core \<Rightarrow> outcome \<times> Core" where
  "setupReceiver P now c =
     (case setQRCodeViewer c of
        (Returned, c1) \<Rightarrow> reset P now c1
      | (ou, c1) \<Rightarrow> (ou, c1))"

definition stopSending :: "platform \<Rightarrow> int \<Rightarrow> Core \<Rightarrow> outcome \<times> Core" where
  "stopSending P now c = setupSender P now (c\<lparr>scanning := False\<rparr>)"

definition stopReceiving :: "platform \<Rightarrow> int \<Rightarrow> Core \<Rightarrow> outcome \<times> Core" where
  "stopReceiving P now c = setupReceiver P now (c\<lparr>scanning := False\<rparr>)"

text \<open>
  \<^verbatim>\<open>startSending\<close> and \<^verbatim>\<open>startReceiving\<close>; \<open>camera\<close> is the result the camera setup
  reports to its callback.
\<close>

definition startSending :: "platform \<Rightarrow> int \<Rightarrow> bool \<Rightarrow> Core \<Rightarrow> outcome \<times> Core" where
  "startSending P now camera c =
     (if isSenderReceiverView c = False then (Returned, c)
      else if isRunning c = True then (Returned, c)
      else if camera then
        (let c1 = c\<lparr>scanning := True, isRunning := True\<rparr>
         in case fileWorker c1 of
              None \<Rightarrow> (Threw TypeError, c1)
            | Some w \<Rightarrow>
                updateQRImage P now (Some metaInfo) (Some (JSON_stringify P (metaInfoOf w))) c1)
      else stopSending P now c)"

definition startReceiving :: "platform \<Rightarrow> int \<Rightarrow> bool \<Rightarrow> Core \<Rightarrow> outcome \<times> Core" where
  "startReceiving P now camera c =
     (if isSenderReceiverView c = False then (Returned, c)
      else if isRunning c = True then (Returned, c)
      else if camera then (Returned, c\<lparr>scanning := True, isRunning := True\<rparr>)
      else stopReceiving P now c)"

text \<open>
  \<^verbatim>\<open>writerDownloadFile\<close>: the click on the link hands the Blob to the browser. On a
  reader the link is undefined and \<^verbatim>\<open>appendChild\<close> throws.
\<close>

definition writerDownloadFile :: "FileWorker \<Rightarrow> Core \<Rightarrow> outcome \<times> Core" where
  "writerDownloadFile w c =
     (case writerCreateDownloadFile w of
        None \<Rightarrow> (Threw TypeError, c)
      | Some (a, w1) \<Rightarrow> (Returned, c\<lparr>fileWorker := Some w1, downloads := downloads c @ [a]\<rparr>))"

text \<open>The branch \<^verbatim>\<open>case ViewOption.sendFile\<close> of \<^verbatim>\<open>_onQRDataReceived\<close>.\<close>

definition onQRDataReceivedSendFile ::
  "platform \<Rightarrow> int \<Rightarrow> ChunkType \<Rightarrow> string \<Rightarrow> Core \<Rightarrow> outcome \<times> Core" where
  "onQRDataReceivedSendFile P now chunkType qrData c =
     (case chunkType of
        metaInfoReceived \<Rightarrow>
          (case fileWorker c of
             None \<Rightarrow> (Returned, c)
           | Some w \<Rightarrow>
               (case readNextChunk P w of
                  (Returned, w1) \<Rightarrow>
                    updateQRImage P now (Some okNext) (lastChunkBase64 w1)
                      (c\<lparr>fileWorker := Some w1\<rparr>)
                | (ou, w1) \<Rightarrow> (ou, c\<lparr>fileWorker := Some w1\<rparr>)))
      | evalSha256 \<Rightarrow>
          (case fileWorker c of
             None \<Rightarrow> (Returned, c)
           | Some w \<Rightarrow>
               let receiverChunkSha256 = qrData in
               if Some receiverChunkSha256 = lastChunkSha256 w then
                 if curChunk w = fileChunks w then
                   (case updateQRImage P now (Some completed) (Some []) c of
                      (Returned, c1) \<Rightarrow> (Returned, c1\<lparr>stopSendingTimer := True\<rparr>)
                    | (ou, c1) \<Rightarrow> (ou, c1))
                 else
                   (case readNextChunk P w of
                      (Returned, w1) \<Rightarrow>
                        updateQRImage P now (Some okNext) (lastChunkBase64 w1)
                          (c\<lparr>fileWorker := Some w1\<rparr>)
                    | (ou, w1) \<Rightarrow> (ou, c\<lparr>fileWorker := Some w1\<rparr>))
               else updateQRImage P now (Some invalidSha256) (lastChunkBase64 w) c)
      | _ \<Rightarrow> (Returned, c))"

text \<open>
  The branch \<^verbatim>\<open>case ViewOption.receiveFile\<close> of \<^verbatim>\<open>_onQRDataReceived\<close>. For a
  \<^verbatim>\<open>meta_info\<close> body on which \<^verbatim>\<open>JSON.parse\<close> throws the handler returns; for a body that
  parses to \<^verbatim>\<open>null\<close> the call \<^verbatim>\<open>createWriter(null)\<close> throws before the worker is assigned.
\<close>

definition onQRDataReceivedReceiveFile ::
  "platform \<Rightarrow> int \<Rightarrow> ChunkType \<Rightarrow> string \<Rightarrow> Core \<Rightarrow> outcome \<times> Core" where
  "onQRDataReceivedReceiveFile P now chunkType qrData c =
     (case chunkType of
        metaInfo \<Rightarrow>
          (if fileWorker c \<noteq> None then (Returned, c)
           else case JSON_parse P qrData of
             None \<Rightarrow> (Returned, c)
           | Some JsonNull \<Rightarrow> (Threw TypeError, c)
           | Some (JsonObject senderMetaInfo) \<Rightarrow>
               updateQRImage P now (Some metaInfoReceived) (Some [])
                 (c\<lparr>fileWorker := Some (createWriter senderMetaInfo)\<rparr>))
      | okNext \<Rightarrow>
          (case fileWorker c of
             None \<Rightarrow> (Returned, c)
           | Some w \<Rightarrow>
               (case writerSetPendingChunk P qrData (writerCommitPendingChunk w) of
                  (Returned, w1) \<Rightarrow>
                    updateQRImage P now (Some evalSha256) (lastChunkSha256 w1)
                      (c\<lparr>fileWorker := Some w1\<rparr>)
                | (ou, w1) \<Rightarrow> (ou, c\<lparr>fileWorker := Some w1\<rparr>)))
      | invalidSha256 \<Rightarrow>
          (case fileWorker c of
             None \<Rightarrow> (Returned, c)
           | Some w \<Rightarrow>
               (case writerSetPendingChunk P qrData w of
                  (Returned, w1) \<Rightarrow>
                    updateQRImage P now (Some evalSha256) (lastChunkSha256 w1)
                      (c\<lparr>fileWorker := Some w1\<rparr>)
                | (ou, w1) \<Rightarrow> (ou, c\<lparr>fileWorker := Some w1\<rparr>)))
      | completed \<Rightarrow>
          (case fileWorker c of
             None \<Rightarrow> (Returned, c)
           | Some w \<Rightarrow>
               let w1 = writerCommitPendingChunk w in
               (case writerDownloadFile w1 (c\<lparr>fileWorker := Some w1\<rparr>) of
                  (Returned, c1) \<Rightarrow> stopReceiving P now c1
                | (ou, c1) \<Rightarrow> (ou, c1)))
      | _ \<Rightarrow> (Returned, c))"

text \<open>The statement \<^verbatim>\<open>switch (QRFileTransfer.Core._displayedView)\<close> of \<^verbatim>\<open>_onQRDataReceived\<close>.\<close>

definition onQRDataReceivedSwitch ::
  "platform \<Rightarrow> int \<Rightarrow> ChunkType \<Rightarrow> string \<Rightarrow> Core \<Rightarrow> outcome \<times> Core" where
  "onQRDataReceivedSwitch P now chunkType qrData c =
     (case displayedView c of
        Some sendFile \<Rightarrow> onQRDataReceivedSendFile P now chunkType qrData c
      | Some receiveFile \<Rightarrow> onQRDataReceivedReceiveFile P now chunkType qrData c
      | _ \<Rightarrow> (Returned, c))"

text \<open>
  \<^verbatim>\<open>_onQRDataReceived\<close>. The observation \<open>rawData\<close> is \<open>None\<close> for a payload that is
  null, blank, not JSON or without one of the fields \<^verbatim>\<open>ckTId\<close>, \<^verbatim>\<open>bd\<close>, \<^verbatim>\<open>dt\<close>.
\<close>

definition onQRDataReceived ::
  "platform \<Rightarrow> int \<Rightarrow> qrData option \<Rightarrow> Core \<Rightarrow> outcome \<times> Core" where
  "onQRDataReceived P now rawData c =
     (if isRunning c = False then (Returned, c)
      else case rawData of
        None \<Rightarrow> (Returned, c)
      | Some jsObj \<Rightarrow>
          let chunkType = chunkTypeFromId (ckTId jsObj);
              qrData = bd jsObj;
              datetime = dt jsObj;
              previousDatetime = lastReceivedDatetime c;
              c1 = c\<lparr>lastReceivedDatetime := Some datetime\<rparr>
          in if previousDatetime = lastReceivedDatetime c1 then (Returned, c1)
             else onQRDataReceivedSwitch P now chunkType qrData c1)"

subsection \<open>Two devices facing each other\<close>

text \<open>
  A session is the state of the two pages, Sender and Receiver, each with its own clock.
  The camera of a device decodes the QR image the other device shows at that moment, and
  the decoded object is handed to \<^verbatim>\<open>_onQRDataReceived\<close>; with no image shown nothing is
  decoded. Time passes between two readings of the same clock, so every reading is later
  than the one before (\<open>d\<close> is the extra delay). The timer event is the two-second timer
  the Sender sets when it shows the \<^verbatim>\<open>completed\<close> envelope. Neither user stops the session
  by hand.

  Two channels are described. In the first one (\<open>event\<close>, \<open>step\<close>, \<open>run\<close>) tag and time
  stamp of an envelope are decoded as shown and the Sender decodes every body as shown;
  the camera of the Receiver may misread the wire form carried by a chunk envelope (tags
  2 and 4), and \<open>noise\<close> is then the text it reads instead. In the second one
  (\<open>reading\<close>, \<open>observe\<close>, \<open>observeAll\<close>) a camera may decode any envelope in place of
  the one shown. The code itself puts no bound on what the decoder hands to
  \<^verbatim>\<open>_onQRDataReceived\<close>.
\<close>

record Session =
  sender :: Core
  receiver :: Core
  senderClock :: int
  receiverClock :: int

datatype event =
  ReceiverObserves nat "string option"
| SenderObserves nat
| SenderTimer nat

definition garble :: "string option \<Rightarrow> qrData \<Rightarrow> qrData" where
  "garble noise q =
     (case noise of
        None \<Rightarrow> q
      | Some b \<Rightarrow> if ckTId q = 2 \<or> ckTId q = 4 then q\<lparr>bd := b\<rparr> else q)"

fun step :: "platform \<Rightarrow> event \<Rightarrow> Session \<Rightarrow> Session" where
  "step P (ReceiverObserves d noise) s =
     (let now = receiverClock s + 1 + int d in
      case qrImage (sender s) of
        None \<Rightarrow> s\<lparr>receiverClock := now\<rparr>
      | Some q \<Rightarrow>
          s\<lparr>receiver := snd (onQRDataReceived P now (Some (garble noise q)) (receiver s)),
            receiverClock := now\<rparr>)"
| "step P (SenderObserves d) s =
     (let now = senderClock s + 1 + int d in
      case qrImage (receiver s) of
        None \<Rightarrow> s\<lparr>senderClock := now\<rparr>
      | Some q \<Rightarrow>
          s\<lparr>sender := snd (onQRDataReceived P now (Some q) (sender s)),
            senderClock := now\<rparr>)"
| "step P (SenderTimer d) s =
     (let now = senderClock s + 1 + int d in
      if stopSendingTimer (sender s) then
        s\<lparr>sender := (snd (stopSending P now (sender s)))\<lparr>stopSendingTimer := False\<rparr>,
          senderClock := now\<rparr>
      else s\<lparr>senderClock := now\<rparr>)"

definition run :: "platform \<Rightarrow> event list \<Rightarrow> Session \<Rightarrow> Session" where
  "run P es s = fold (step P) es s"

text \<open>
  The second channel. A reading carries the envelope the camera decodes in place of the one
  shown; \<open>None\<close> when it decodes the one shown.
\<close>

datatype reading =
  ReceiverReads nat "qrData option"
| SenderReads nat "qrData option"
| TimerFires nat

fun observe :: "platform \<Rightarrow> reading \<Rightarrow> Session \<Rightarrow> Session" where
  "observe P (ReceiverReads d misread) s =
     (let now = receiverClock s + 1 + int d in
      case qrImage (sender s) of
        None \<Rightarrow> s\<lparr>receiverClock := now\<rparr>
      | Some q \<Rightarrow>
          s\<lparr>receiver :=
              snd (onQRDataReceived P now (Some (case misread of None \<Rightarrow> q | Some q' \<Rightarrow> q'))
                     (receiver s)),
            receiverClock := now\<rparr>)"
| "observe P (SenderReads d misread) s =
     (let now = senderClock s + 1 + int d in
      case qrImage (receiver s) of
        None \<Rightarrow> s\<lparr>senderClock := now\<rparr>
      | Some q \<Rightarrow>
          s\<lparr>sender :=
              snd (onQRDataReceived P now (Some (case misread of None \<Rightarrow> q | Some q' \<Rightarrow> q'))
                     (sender s)),
            senderClock := now\<rparr>)"
| "observe P (TimerFires d) s = step P (SenderTimer d) s"




text \<open>
  The page after \<^verbatim>\<open>loadView\<close>, the Sender after the user picked a file and a chunk size
  (\<^verbatim>\<open>_onFileChanged\<close>, \<^verbatim>\<open>updateSenderChunkSize\<close>), and the session after both users
  pressed start with working cameras.
\<close>

definition pageLoaded :: "ViewOption \<Rightarrow> Core" where
  "pageLoaded v =
     \<lparr> displayedView = Some v, fileWorker = None, isRunning = False,
       lastReceivedDatetime = None, qrImage = None, downloads = [], scanning = False,
       stopSendingTimer = False \<rparr>"

definition fileChosen :: "File \<Rightarrow> int \<Rightarrow> Core" where
  "fileChosen f k = (pageLoaded sendFile)\<lparr>fileWorker := Some (updateChunkSize k (createReader f))\<rparr>"

definition startSession :: "platform \<Rightarrow> File \<Rightarrow> int \<Rightarrow> int \<Rightarrow> int \<Rightarrow> Session" where
  "startSession P f k tS tR =
     \<lparr> sender = snd (startSending P tS True (fileChosen f k)),
       receiver = snd (startReceiving P tR True (pageLoaded receiveFile)),
       senderClock = tS, receiverClock = tR \<rparr>"

text \<open>The chunk with 0-based index \<open>j\<close>, as \<^verbatim>\<open>readNextChunk\<close> slices it.\<close>

definition chunkAt :: "File \<Rightarrow> int \<Rightarrow> int \<Rightarrow> byte list" where
  "chunkAt f k j = blobSlice (content f) (j * k) (j * k + k)"

subsection \<open>A concrete platform for the closed examples\<close>

text \<open>
  The theorems below hold for every platform. Their closed instances are evaluated on this
  one: Base64 as in RFC 4648, the text encoder on ASCII, JSON on the meta-information
  texts of the examples, and the identity as stand-in for the digest.
\<close>

definition b64chars :: string where
  "b64chars = ''ABCDEFGHIJKLMNOPQRSTUVWXYZabcdefghijklmnopqrstuvwxyz0123456789+/''"

fun b64encode :: "nat list \<Rightarrow> string" where
  "b64encode (a # b # c # r) =
     [b64chars ! (a div 4), b64chars ! ((a mod 4) * 16 + b div 16),
      b64chars ! ((b mod 16) * 4 + c div 64), b64chars ! (c mod 64)] @ b64encode r"
| "b64encode [a, b] =
     [b64chars ! (a div 4), b64chars ! ((a mod 4) * 16 + b div 16),
      b64chars ! ((b mod 16) * 4), CHR ''='']"
| "b64encode [a] = [b64chars ! (a div 4), b64chars ! ((a mod 4) * 16), CHR ''='', CHR ''='']"
| "b64encode [] = []"

fun indexOf :: "'a \<Rightarrow> 'a list \<Rightarrow> nat option" where
  "indexOf x [] = None"
| "indexOf x (y # ys) = (if x = y then Some 0 else map_option Suc (indexOf x ys))"

fun b64decode :: "string \<Rightarrow> nat list option" where
  "b64decode [] = Some []"
| "b64decode (c1 # c2 # c3 # c4 # r) =
     (case (indexOf c1 b64chars, indexOf c2 b64chars) of
        (Some i1, Some i2) \<Rightarrow>
          if c3 = CHR ''='' \<and> c4 = CHR ''='' \<and> r = [] then Some [i1 * 4 + i2 div 16]
          else (case indexOf c3 b64chars of
                  None \<Rightarrow> None
                | Some i3 \<Rightarrow>
                    if c4 = CHR ''='' \<and> r = [] then
                      Some [i1 * 4 + i2 div 16, (i2 mod 16) * 16 + i3 div 4]
                    else (case indexOf c4 b64chars of
                            None \<Rightarrow> None
                          | Some i4 \<Rightarrow>
                              map_option
                                (\<lambda>t. [i1 * 4 + i2 div 16, (i2 mod 16) * 16 + i3 div 4,
                                      (i3 mod 4) * 64 + i4] @ t)
                                (b64decode r)))
      | _ \<Rightarrow> None)"
| "b64decode _ = None"

definition demoMeta :: MetaInfo where
  "demoMeta =
     \<lparr> fileName = Some ''a.bin'', fileType = Some ''application/octet-stream'',
       metaFileSize = 8, metaFileChunks = 2, metaChunkSize = 4 \<rparr>"

definition demoMetaText :: string where
  "demoMetaText = ''{\"fileName\":\"a.bin\",\"fileType\":\"application/octet-stream\",\"fileSize\":8,\"fileChunks\":2,\"chunkSize\":4}''"

definition demoBadMeta :: MetaInfo where
  "demoBadMeta =
     \<lparr> fileName = Some [], fileType = Some ''text/plain'',
       metaFileSize = 10, metaFileChunks = 7, metaChunkSize = 0 \<rparr>"

definition demoBadMetaText :: string where
  "demoBadMetaText = ''{\"fileName\":\"\",\"fileType\":\"text/plain\",\"fileSize\":10,\"fileChunks\":7,\"chunkSize\":0}''"

definition demoEmptyMeta :: MetaInfo where
  "demoEmptyMeta =
     \<lparr> fileName = Some ''empty.txt'', fileType = Some ''text/plain'',
       metaFileSize = 0, metaFileChunks = 0, metaChunkSize = 128 \<rparr>"

definition demoEmptyMetaText :: string where
  "demoEmptyMetaText = ''{\"fileName\":\"empty.txt\",\"fileType\":\"text/plain\",\"fileSize\":0,\"fileChunks\":0,\"chunkSize\":128}''"

definition demoPlatform :: platform where
  "demoPlatform =
     \<lparr> digestSHA256 = (\<lambda>bs. bs),
       textEncode = map of_char,
       readAsDataURL = (\<lambda>bs. ''data:application/octet-stream;base64,'' @ b64encode (map unat bs)),
       atob = (\<lambda>s. map_option (map char_of) (b64decode s)),
       JSON_stringify =
         (\<lambda>m. if m = Some demoMeta then demoMetaText
              else if m = Some demoEmptyMeta then demoEmptyMetaText
              else ''null''),
       JSON_parse =
         (\<lambda>s. if s = demoMetaText then Some (JsonObject demoMeta)
              else if s = demoBadMetaText then Some (JsonObject demoBadMeta)
              else if s = demoEmptyMetaText then Some (JsonObject demoEmptyMeta)
              else if s = ''null'' then Some JsonNull
              else None),
       qrViewHasImg = True \<rparr>"

text \<open>
  The file of the examples (eight bytes, sent in chunks of four) and the session at the
  moment the Receiver has answered the first chunk.
\<close>

definition demoFile :: File where
  "demoFile = \<lparr> name = ''a.bin'', mimeType = [], content = [0, 1, 2, 3, 4, 5, 6, 7] \<rparr>"

definition demoSession :: Session where
  "demoSession =
     run demoPlatform [ReceiverObserves 0 None, SenderObserves 0, ReceiverObserves 0 None]
       (startSession demoPlatform demoFile 4 100 500)"



definition demoEmptyFile :: File where
  "demoEmptyFile = \<lparr> name = ''empty.txt'', mimeType = ''text/plain'', content = [] \<rparr>"

text \<open>
  The digest as the specification words it, to be compared with \<open>sha256\<close>: every byte of
  the SHA-256 value written as two lowercase hexadecimal digits.
\<close>

definition specLowercaseHex :: "byte list \<Rightarrow> string" where
  "specLowercaseHex bs =
     concat (map (\<lambda>b. [''0123456789abcdef'' ! (unat b div 16),
                       ''0123456789abcdef'' ! (unat b mod 16)]) bs)"

subsection \<open>The phases of a session\<close>

text \<open>
  The worker of the Sender after \<open>j\<close> chunks were read, and the buffer of the Receiver
  after \<open>j\<close> chunks were committed.
\<close>

definition senderWorker :: "platform \<Rightarrow> File \<Rightarrow> int \<Rightarrow> nat \<Rightarrow> FileWorker" where
  "senderWorker P f k j =
     (if j = 0 then updateChunkSize k (createReader f)
      else (updateChunkSize k (createReader f))
        \<lparr>lastChunkBlob := Some (chunkAt f k (int j - 1)),
         lastChunkBase64 := blobAsBase64 P (chunkAt f k (int j - 1)),
         lastChunkSha256 := sha256 P (blobAsBase64 P (chunkAt f k (int j - 1))),
         curChunk := int j\<rparr>)"

definition committed :: "File \<Rightarrow> int \<Rightarrow> nat \<Rightarrow> byte list list" where
  "committed f k j = map (\<lambda>i. chunkAt f k (int i)) [0..<j]"

text \<open>
  The phases a session goes through, as predicates on the state of the two pages. They
  are used to state the invariant of \<open>step\<close>.
  \<^item> \<open>quiet\<close>: neither side reacts to what the other shows any more (the image shown to
    it is absent or carries the time stamp it stored, or the side has stopped).
  \<^item> \<open>awaitingMeta\<close>: the Sender shows the meta information, the Receiver has no session.
  \<^item> \<open>metaAcked\<close>: the Receiver has created its session and shows the acknowledgement.
  \<^item> \<open>chunkShown j\<close>: the Sender shows chunk \<open>j\<close>, which the Receiver has not handled yet.
  \<^item> \<open>chunkAnswered j\<close>: the Receiver holds a pending chunk and shows its digest.
  \<^item> \<open>completedShown\<close>: the Sender shows \<^verbatim>\<open>completed\<close>, the Receiver has not handled it.
\<close>

definition clocksOk :: "Session \<Rightarrow> bool" where
  "clocksOk s =
     ((\<forall>n. lastReceivedDatetime (receiver s) = Some n \<longrightarrow> n \<le> senderClock s) \<and>
      (\<forall>q. qrImage (sender s) = Some q \<longrightarrow> dt q \<le> senderClock s) \<and>
      (\<forall>n. lastReceivedDatetime (sender s) = Some n \<longrightarrow> n \<le> receiverClock s) \<and>
      (\<forall>q. qrImage (receiver s) = Some q \<longrightarrow> dt q \<le> receiverClock s))"

definition quiet :: "File \<Rightarrow> Session \<Rightarrow> bool" where
  "quiet f s =
     ((qrImage (sender s) = None \<or> \<not> isRunning (receiver s) \<or>
       lastReceivedDatetime (receiver s) = map_option dt (qrImage (sender s))) \<and>
      (qrImage (receiver s) = None \<or> \<not> isRunning (sender s) \<or>
       lastReceivedDatetime (sender s) = map_option dt (qrImage (receiver s))) \<and>
      (\<forall>d \<in> set (downloads (receiver s)). downloadBytes d = content f))"

definition senderTransmitting :: "platform \<Rightarrow> File \<Rightarrow> int \<Rightarrow> nat \<Rightarrow> string \<Rightarrow> Core \<Rightarrow> bool" where
  "senderTransmitting P f k j wire c =
     (isRunning c \<and> displayedView c = Some sendFile \<and> \<not> stopSendingTimer c \<and>
      1 \<le> j \<and> int j \<le> fileChunks (updateChunkSize k (createReader f)) \<and>
      fileWorker c = Some (senderWorker P f k j) \<and>
      blobAsBase64 P (chunkAt f k (int j - 1)) = Some wire \<and>
      (\<exists>q. qrImage c = Some q \<and> (ckTId q = 2 \<or> ckTId q = 4) \<and> bd q = wire))"

definition senderAdvertising :: "platform \<Rightarrow> File \<Rightarrow> int \<Rightarrow> Core \<Rightarrow> bool" where
  "senderAdvertising P f k c =
     (isRunning c \<and> displayedView c = Some sendFile \<and> \<not> stopSendingTimer c \<and>
      fileWorker c = Some (senderWorker P f k 0) \<and> lastReceivedDatetime c = None \<and>
      (\<exists>q. qrImage c = Some q \<and> ckTId q = 0))"

definition receiverCollecting :: "FileWorker \<Rightarrow> Core \<Rightarrow> bool" where
  "receiverCollecting wr c =
     (isRunning c \<and> displayedView c = Some receiveFile \<and> downloads c = [] \<and>
      fileWorker c = Some wr \<and> readMode wr = False)"

definition awaitingMeta :: "platform \<Rightarrow> File \<Rightarrow> int \<Rightarrow> Session \<Rightarrow> bool" where
  "awaitingMeta P f k s =
     (senderAdvertising P f k (sender s) \<and>
      isRunning (receiver s) \<and> displayedView (receiver s) = Some receiveFile \<and>
      downloads (receiver s) = [] \<and> fileWorker (receiver s) = None \<and>
      qrImage (receiver s) = None \<and> lastReceivedDatetime (receiver s) = None)"

definition metaAcked :: "platform \<Rightarrow> File \<Rightarrow> int \<Rightarrow> Session \<Rightarrow> bool" where
  "metaAcked P f k s =
     (senderAdvertising P f k (sender s) \<and>
      (\<exists>wr. receiverCollecting wr (receiver s) \<and> lastChunkBlob wr = None \<and> writerBuffer wr = []) \<and>
      (\<exists>q. qrImage (receiver s) = Some q \<and> ckTId q = 1) \<and>
      lastReceivedDatetime (receiver s) = map_option dt (qrImage (sender s)))"

definition chunkShown :: "platform \<Rightarrow> File \<Rightarrow> int \<Rightarrow> nat \<Rightarrow> Session \<Rightarrow> bool" where
  "chunkShown P f k j s =
     (\<exists>wire wr.
        senderTransmitting P f k j wire (sender s) \<and>
        receiverCollecting wr (receiver s) \<and>
        writerBuffer
          (if map_option ckTId (qrImage (sender s)) = Some 2 then writerCommitPendingChunk wr
           else wr) = committed f k (j - 1) \<and>
        lastReceivedDatetime (sender s) = map_option dt (qrImage (receiver s)) \<and>
        lastReceivedDatetime (receiver s) \<noteq> map_option dt (qrImage (sender s)))"

definition chunkAnswered :: "platform \<Rightarrow> File \<Rightarrow> int \<Rightarrow> nat \<Rightarrow> Session \<Rightarrow> bool" where
  "chunkAnswered P f k j s =
     (\<exists>wire wr raw q.
        senderTransmitting P f k j wire (sender s) \<and>
        receiverCollecting wr (receiver s) \<and>
        writerBuffer wr = committed f k (j - 1) \<and> lastChunkBlob wr = Some raw \<and>
        qrImage (receiver s) = Some q \<and> ckTId q = 3 \<and>
        (Some (bd q) = sha256 P (Some wire) \<longrightarrow> raw = chunkAt f k (int j - 1)) \<and>
        lastReceivedDatetime (receiver s) = map_option dt (qrImage (sender s)) \<and>
        lastReceivedDatetime (sender s) \<noteq> Some (dt q))"

definition completedShown :: "File \<Rightarrow> Session \<Rightarrow> bool" where
  "completedShown f s =
     (\<exists>wr q.
        isRunning (sender s) \<and> displayedView (sender s) = Some sendFile \<and>
        qrImage (sender s) = Some q \<and> ckTId q = 50 \<and>
        receiverCollecting wr (receiver s) \<and>
        concat (writerBuffer (writerCommitPendingChunk wr)) = content f \<and>
        lastReceivedDatetime (sender s) = map_option dt (qrImage (receiver s)) \<and>
        lastReceivedDatetime (receiver s) \<noteq> Some (dt q))"



text \<open>The invariant of a session that sends an empty file.\<close>

definition emptyFileInv :: "platform \<Rightarrow> File \<Rightarrow> int \<Rightarrow> Session \<Rightarrow> bool" where
  "emptyFileInv P f k s =
     (downloads (receiver s) = [] \<and>
      (\<forall>q. qrImage (sender s) = Some q \<longrightarrow> ckTId q = 0) \<and>
      (quiet f s \<or> (clocksOk s \<and> (awaitingMeta P f k s \<or> metaAcked P f k s))))"

section \<open>Properties\<close>

subsection \<open>Trimming and digests\<close>

lemma last_dropWhile_nonempty:
  assumes "dropWhile Q xs \<noteq> []"
  shows "last (dropWhile Q xs) = last xs"
proof -
  have "last (takeWhile Q xs @ dropWhile Q xs) = last (dropWhile Q xs)"
    using assms by (rule last_appendR)
  then show ?thesis by simp
qed

lemma dropWhile_trim: "dropWhile isWhiteSpace (trim s) = trim s"
proof (cases "trim s = []")
  case True
  then show ?thesis by simp
next
  case False
  define t where "t = dropWhile isWhiteSpace s"
  define u where "u = dropWhile isWhiteSpace (rev t)"
  have ts: "trim s = rev u" by (simp add: trim_def t_def u_def)
  with False have u: "u \<noteq> []" by simp
  then have "rev t \<noteq> []" by (auto simp: u_def)
  then have t: "t \<noteq> []" by simp
  have "last u = last (rev t)" using u unfolding u_def by (rule last_dropWhile_nonempty)
  also have "\<dots> = hd t" using t by (simp add: last_rev)
  finally have "hd (rev u) = hd t" using u by (simp add: hd_rev)
  moreover have "\<not> isWhiteSpace (hd t)" using t unfolding t_def by (rule hd_dropWhile)
  ultimately have "\<not> isWhiteSpace (hd (trim s))" by (simp add: ts)
  then show ?thesis by (simp add: dropWhile_eq_self_iff)
qed

lemma trim_idem: "trim (trim s) = trim s"
proof -
  have "trim (trim s) = rev (dropWhile isWhiteSpace (rev (trim s)))"
    by (simp add: trim_def[of "trim s"] dropWhile_trim)
  also have "rev (trim s) = dropWhile isWhiteSpace (rev (dropWhile isWhiteSpace s))"
    by (simp add: trim_def)
  also have "rev (dropWhile isWhiteSpace \<dots>) = trim s"
    by (simp add: trim_def)
  finally show ?thesis .
qed

lemma trim_Nil: "trim [] = []"
  by (simp add: trim_def)

lemma sha256_trimmed: "sha256 P (Some m) = Some d \<Longrightarrow> trim d = d"
  by (auto simp: sha256_def Let_def trim_idem)


lemma blobAsBase64_trimmed: "blobAsBase64 P blob = Some b \<Longrightarrow> trim b = b"
  by (auto simp: blobAsBase64_def trim_idem)

subsection \<open>The observation handler, branch by branch\<close>

lemma onQRDataReceived_notRunning:
  "isRunning c = False \<Longrightarrow> onQRDataReceived P now rawData c = (Returned, c)"
  by (simp add: onQRDataReceived_def)

lemma onQRDataReceived_dropped:
  assumes "isRunning c" and "lastReceivedDatetime c = Some (dt jsObj)"
  shows "onQRDataReceived P now (Some jsObj) c = (Returned, c)"
proof -
  have "c\<lparr>lastReceivedDatetime := Some (dt jsObj)\<rparr> = c"
    using assms(2) by simp
  then show ?thesis
    using assms by (simp add: onQRDataReceived_def Let_def)
qed

lemma onQRDataReceived_fresh_receiveFile:
  assumes "isRunning c" and "lastReceivedDatetime c \<noteq> Some (dt jsObj)"
    and "displayedView c = Some receiveFile"
  shows "onQRDataReceived P now (Some jsObj) c =
           onQRDataReceivedReceiveFile P now (chunkTypeFromId (ckTId jsObj)) (bd jsObj)
             (c\<lparr>lastReceivedDatetime := Some (dt jsObj)\<rparr>)"
  using assms by (simp add: onQRDataReceived_def onQRDataReceivedSwitch_def Let_def)

lemma onQRDataReceived_fresh_sendFile:
  assumes "isRunning c" and "lastReceivedDatetime c \<noteq> Some (dt jsObj)"
    and "displayedView c = Some sendFile"
  shows "onQRDataReceived P now (Some jsObj) c =
           onQRDataReceivedSendFile P now (chunkTypeFromId (ckTId jsObj)) (bd jsObj)
             (c\<lparr>lastReceivedDatetime := Some (dt jsObj)\<rparr>)"
  using assms by (simp add: onQRDataReceived_def onQRDataReceivedSwitch_def Let_def)

lemma onQRDataReceived_fresh:
  assumes "isRunning c" and "lastReceivedDatetime c \<noteq> Some (dt jsObj)"
  shows "onQRDataReceived P now (Some jsObj) c =
           onQRDataReceivedSwitch P now (chunkTypeFromId (ckTId jsObj)) (bd jsObj)
             (c\<lparr>lastReceivedDatetime := Some (dt jsObj)\<rparr>)"
  using assms by (simp add: onQRDataReceived_def Let_def)

lemma updateQRImage_shown:
  "isSenderReceiverView c \<Longrightarrow>
   updateQRImage P now (Some t) (Some i) c =
     (Returned, c\<lparr>qrImage := Some \<lparr> ckTId = chunkTypeId t, bd = trim i, dt = now \<rparr>\<rparr>)"
  by (simp add: updateQRImage_def)

lemma writerCommitPendingChunk_noop:
  "readMode w = True \<or> lastChunkBlob w = None \<Longrightarrow> writerCommitPendingChunk w = w"
  by (auto simp: writerCommitPendingChunk_def)

lemma writerSetPendingChunk_ok:
  assumes "readMode w = False" and "bufferArrayFromBase64 P (trim body) = Some raw"
  shows "writerSetPendingChunk P body w =
           (Returned, w\<lparr>lastChunkBlob := Some raw, lastChunkBase64 := Some body,
                        lastChunkSha256 := sha256 P (Some body)\<rparr>)"
  using assms by (simp add: writerSetPendingChunk_def)


subsection \<open>What the handler never touches: the stored time stamp\<close>

lemma updateQRImage_lastReceivedDatetime:
  "updateQRImage P now t i c = (ou, c') \<Longrightarrow> lastReceivedDatetime c' = lastReceivedDatetime c"
  by (auto simp: updateQRImage_def split: if_splits option.splits)

lemma reset_lastReceivedDatetime:
  "reset P now c = (ou, c') \<Longrightarrow> lastReceivedDatetime c' = lastReceivedDatetime c"
  by (auto simp: reset_def dest: updateQRImage_lastReceivedDatetime)

lemma stopReceiving_lastReceivedDatetime:
  "stopReceiving P now c = (ou, c') \<Longrightarrow> lastReceivedDatetime c' = lastReceivedDatetime c"
  by (auto simp: stopReceiving_def setupReceiver_def setQRCodeViewer_def
      split: option.splits if_splits dest: reset_lastReceivedDatetime)

lemma writerDownloadFile_lastReceivedDatetime:
  "writerDownloadFile w c = (ou, c') \<Longrightarrow> lastReceivedDatetime c' = lastReceivedDatetime c"
  by (auto simp: writerDownloadFile_def split: option.splits)

lemma onQRDataReceivedSendFile_lastReceivedDatetime:
  "onQRDataReceivedSendFile P now chunkType qrData c = (ou, c') \<Longrightarrow>
   lastReceivedDatetime c' = lastReceivedDatetime c"
  by (auto simp: onQRDataReceivedSendFile_def Let_def
      split: ChunkType.splits option.splits prod.splits outcome.splits if_splits
      dest: updateQRImage_lastReceivedDatetime)

lemma onQRDataReceivedReceiveFile_lastReceivedDatetime:
  "onQRDataReceivedReceiveFile P now chunkType qrData c = (ou, c') \<Longrightarrow>
   lastReceivedDatetime c' = lastReceivedDatetime c"
  by (auto simp: onQRDataReceivedReceiveFile_def Let_def
      split: ChunkType.splits option.splits json.splits prod.splits outcome.splits if_splits
      dest!: updateQRImage_lastReceivedDatetime stopReceiving_lastReceivedDatetime
        writerDownloadFile_lastReceivedDatetime)

lemma onQRDataReceivedSwitch_lastReceivedDatetime:
  "onQRDataReceivedSwitch P now chunkType qrData c = (ou, c') \<Longrightarrow>
   lastReceivedDatetime c' = lastReceivedDatetime c"
  by (auto simp: onQRDataReceivedSwitch_def
      split: option.splits ViewOption.splits
      dest: onQRDataReceivedSendFile_lastReceivedDatetime
        onQRDataReceivedReceiveFile_lastReceivedDatetime)

lemma onQRDataReceived_lastReceivedDatetime:
  assumes "isRunning c"
  shows "lastReceivedDatetime (snd (onQRDataReceived P now (Some jsObj) c)) = Some (dt jsObj)"
proof (cases "lastReceivedDatetime c = Some (dt jsObj)")
  case True
  with assms show ?thesis by (simp add: onQRDataReceived_dropped)
next
  case False
  obtain ou c' where r: "onQRDataReceivedSwitch P now (chunkTypeFromId (ckTId jsObj)) (bd jsObj)
      (c\<lparr>lastReceivedDatetime := Some (dt jsObj)\<rparr>) = (ou, c')"
    by (cases "onQRDataReceivedSwitch P now (chunkTypeFromId (ckTId jsObj)) (bd jsObj)
      (c\<lparr>lastReceivedDatetime := Some (dt jsObj)\<rparr>)") blast
  from onQRDataReceivedSwitch_lastReceivedDatetime[OF r]
  have "lastReceivedDatetime c' = Some (dt jsObj)" by simp
  with assms False r show ?thesis by (simp add: onQRDataReceived_fresh)
qed

subsection \<open>Deduplication of repeated sightings\<close>

text \<open>
  C3, as the code has it. An observation whose time stamp equals the stored one is
  dropped and the state of the side is unchanged. On a running side an observation with
  any other time stamp, smaller or greater than the stored one or the first one seen, is
  handled in the same way: the stored time stamp is overwritten with it and the switch on
  the view and the kind is run on the state so updated. In particular an observation with
  a smaller time stamp is not dropped, and the state changes.
\<close>

theorem C3_equal_nonce_dropped:
  "(lastReceivedDatetime c = Some (dt jsObj) \<longrightarrow>
      onQRDataReceived P now (Some jsObj) c = (Returned, c)) \<and>
   (isRunning c \<and> lastReceivedDatetime c \<noteq> Some (dt jsObj) \<longrightarrow>
      onQRDataReceived P now (Some jsObj) c =
        onQRDataReceivedSwitch P now (chunkTypeFromId (ckTId jsObj)) (bd jsObj)
          (c\<lparr>lastReceivedDatetime := Some (dt jsObj)\<rparr>)) \<and>
   (isRunning c \<and> lastReceivedDatetime c = Some n \<and> dt jsObj < n \<longrightarrow>
      onQRDataReceived P now (Some jsObj) c =
        onQRDataReceivedSwitch P now (chunkTypeFromId (ckTId jsObj)) (bd jsObj)
          (c\<lparr>lastReceivedDatetime := Some (dt jsObj)\<rparr>) \<and>
      lastReceivedDatetime (snd (onQRDataReceived P now (Some jsObj) c)) = Some (dt jsObj) \<and>
      snd (onQRDataReceived P now (Some jsObj) c) \<noteq> c)"
proof (intro conjI impI)
  assume "lastReceivedDatetime c = Some (dt jsObj)"
  then show "onQRDataReceived P now (Some jsObj) c = (Returned, c)"
    by (cases "isRunning c")
      (simp_all add: onQRDataReceived_dropped onQRDataReceived_notRunning)
next
  assume "isRunning c \<and> lastReceivedDatetime c \<noteq> Some (dt jsObj)"
  then show "onQRDataReceived P now (Some jsObj) c =
      onQRDataReceivedSwitch P now (chunkTypeFromId (ckTId jsObj)) (bd jsObj)
        (c\<lparr>lastReceivedDatetime := Some (dt jsObj)\<rparr>)"
    by (simp add: onQRDataReceived_fresh)
next
  assume a: "isRunning c \<and> lastReceivedDatetime c = Some n \<and> dt jsObj < n"
  then have "lastReceivedDatetime c \<noteq> Some (dt jsObj)" by auto
  with a show "onQRDataReceived P now (Some jsObj) c =
      onQRDataReceivedSwitch P now (chunkTypeFromId (ckTId jsObj)) (bd jsObj)
        (c\<lparr>lastReceivedDatetime := Some (dt jsObj)\<rparr>)"
    by (simp add: onQRDataReceived_fresh)
  from a show l: "lastReceivedDatetime (snd (onQRDataReceived P now (Some jsObj) c)) = Some (dt jsObj)"
    by (simp add: onQRDataReceived_lastReceivedDatetime)
  show "snd (onQRDataReceived P now (Some jsObj) c) \<noteq> c"
  proof
    assume "snd (onQRDataReceived P now (Some jsObj) c) = c"
    with l have "lastReceivedDatetime c = Some (dt jsObj)" by simp
    with a show False by auto
  qed
qed

text \<open>
  An instance: the Receiver of the example session has stored the time stamp 101. The
  envelope of the first chunk seen again with that stamp is dropped; the envelope of the
  second chunk stamped 5 goes through the switch as \<^verbatim>\<open>ok_next\<close>, which commits the pending
  chunk and answers with the digest of the new one.
\<close>

theorem C3_equal_nonce_dropped_witness:
  "lastReceivedDatetime (receiver demoSession) = Some 101 \<and>
   onQRDataReceived demoPlatform 600 (Some \<lparr> ckTId = 2, bd = ''AAECAw=='', dt = 101 \<rparr>)
     (receiver demoSession) = (Returned, receiver demoSession) \<and>
   isRunning (receiver demoSession) \<and>
   onQRDataReceived demoPlatform 600 (Some \<lparr> ckTId = 2, bd = ''BAUGBw=='', dt = 5 \<rparr>)
     (receiver demoSession) =
     onQRDataReceivedSwitch demoPlatform 600 okNext ''BAUGBw==''
       ((receiver demoSession)\<lparr>lastReceivedDatetime := Some 5\<rparr>) \<and>
   lastReceivedDatetime
     (snd (onQRDataReceived demoPlatform 600 (Some \<lparr> ckTId = 2, bd = ''BAUGBw=='', dt = 5 \<rparr>)
        (receiver demoSession))) = Some 5 \<and>
   map_option writerBuffer
     (fileWorker (snd (onQRDataReceivedSwitch demoPlatform 600 okNext ''BAUGBw==''
        ((receiver demoSession)\<lparr>lastReceivedDatetime := Some 5\<rparr>)))) = Some [[0, 1, 2, 3]]"
proof -
  let ?a = "\<lparr> ckTId = 2, bd = ''AAECAw=='', dt = 101 \<rparr>"
  let ?b = "\<lparr> ckTId = 2, bd = ''BAUGBw=='', dt = 5 \<rparr>"
  have h1: "lastReceivedDatetime (receiver demoSession) = Some 101" by code_simp
  have h2: "isRunning (receiver demoSession)" by code_simp
  have e1: "chunkTypeFromId (ckTId ?b) = okNext" by (simp add: chunkTypeFromId_def)
  have e2: "bd ?b = ''BAUGBw==''" and e3: "dt ?b = 5" and e4: "dt ?a = 101" by simp_all
  have lt: "dt ?b < 101" by simp
  have bf: "map_option writerBuffer
     (fileWorker (snd (onQRDataReceivedSwitch demoPlatform 600 okNext ''BAUGBw==''
        ((receiver demoSession)\<lparr>lastReceivedDatetime := Some 5\<rparr>)))) = Some [[0, 1, 2, 3]]"
    by code_simp
  note ta = C3_equal_nonce_dropped[where c = "receiver demoSession" and jsObj = ?a
      and P = demoPlatform and now = 600 and n = 101]
  note tb = C3_equal_nonce_dropped[where c = "receiver demoSession" and jsObj = ?b
      and P = demoPlatform and now = 600 and n = 101]
  have h1': "lastReceivedDatetime (receiver demoSession) = Some (dt ?a)"
    using h1 by simp
  from ta h1' have p1: "onQRDataReceived demoPlatform 600 (Some ?a)
     (receiver demoSession) = (Returned, receiver demoSession)" by blast
  from tb h1 h2 lt have p2: "onQRDataReceived demoPlatform 600 (Some ?b) (receiver demoSession) =
        onQRDataReceivedSwitch demoPlatform 600 (chunkTypeFromId (ckTId ?b)) (bd ?b)
          ((receiver demoSession)\<lparr>lastReceivedDatetime := Some (dt ?b)\<rparr>) \<and>
      lastReceivedDatetime (snd (onQRDataReceived demoPlatform 600 (Some ?b)
        (receiver demoSession))) = Some (dt ?b)" by blast
  from h1 h2 p1 p2[unfolded e1 e2 e3] bf show ?thesis by blast
qed

text \<open>
  C3 as stated fails: the Receiver last saw time stamp 101 and now sees an envelope stamped
  5; the envelope is handled, the pending chunk is committed and the stored stamp becomes 5.
\<close>

theorem C3_counterexample:
  "lastReceivedDatetime (receiver demoSession) = Some 101 \<and>
   dt \<lparr> ckTId = 2, bd = ''BAUGBw=='', dt = 5 \<rparr> \<le> 101 \<and>
   snd (onQRDataReceived demoPlatform 600 (Some \<lparr> ckTId = 2, bd = ''BAUGBw=='', dt = 5 \<rparr>)
          (receiver demoSession)) \<noteq> receiver demoSession \<and>
   map_option writerBuffer
     (fileWorker (snd (onQRDataReceived demoPlatform 600
        (Some \<lparr> ckTId = 2, bd = ''BAUGBw=='', dt = 5 \<rparr>) (receiver demoSession)))) =
     Some [[0, 1, 2, 3]]"
  by code_simp

text \<open>
  C9: on a running side every well-formed observation leaves its own time stamp as the
  stored one, whatever the handler does with it afterwards. So when two envelopes with
  different time stamps are seen in alternation, the second sighting of the first one
  finds the other's stamp stored and reaches the switch on the view and the kind like a
  fresh observation.
\<close>

theorem C9_nonce_overwritten_before_dispatch:
  assumes "isRunning c"
  shows "lastReceivedDatetime (snd (onQRDataReceived P now (Some jsObj) c)) = Some (dt jsObj) \<and>
    (dt a \<noteq> dt b \<and>
     c1 = snd (onQRDataReceived P t1 (Some a) c) \<and> isRunning c1 \<and>
     c2 = snd (onQRDataReceived P t2 (Some b) c1) \<and> isRunning c2 \<longrightarrow>
     onQRDataReceived P t2 (Some b) c1 =
       onQRDataReceivedSwitch P t2 (chunkTypeFromId (ckTId b)) (bd b)
         (c1\<lparr>lastReceivedDatetime := Some (dt b)\<rparr>) \<and>
     onQRDataReceived P t3 (Some a) c2 =
       onQRDataReceivedSwitch P t3 (chunkTypeFromId (ckTId a)) (bd a)
         (c2\<lparr>lastReceivedDatetime := Some (dt a)\<rparr>))"
proof (intro conjI impI)
  show "lastReceivedDatetime (snd (onQRDataReceived P now (Some jsObj) c)) = Some (dt jsObj)"
    using assms by (rule onQRDataReceived_lastReceivedDatetime)
next
  assume h: "dt a \<noteq> dt b \<and>
       c1 = snd (onQRDataReceived P t1 (Some a) c) \<and> isRunning c1 \<and>
       c2 = snd (onQRDataReceived P t2 (Some b) c1) \<and> isRunning c2"
  from h have ne: "dt a \<noteq> dt b" and c1: "c1 = snd (onQRDataReceived P t1 (Some a) c)"
    and r1: "isRunning c1" and c2: "c2 = snd (onQRDataReceived P t2 (Some b) c1)"
    and r2: "isRunning c2" by blast+
  have l1: "lastReceivedDatetime c1 = Some (dt a)"
    unfolding c1 using assms by (rule onQRDataReceived_lastReceivedDatetime)
  have l2: "lastReceivedDatetime c2 = Some (dt b)"
    unfolding c2 using r1 by (rule onQRDataReceived_lastReceivedDatetime)
  show "onQRDataReceived P t2 (Some b) c1 =
         onQRDataReceivedSwitch P t2 (chunkTypeFromId (ckTId b)) (bd b)
           (c1\<lparr>lastReceivedDatetime := Some (dt b)\<rparr>)"
    using r1 l1 ne by (intro onQRDataReceived_fresh) auto
  show "onQRDataReceived P t3 (Some a) c2 =
         onQRDataReceivedSwitch P t3 (chunkTypeFromId (ckTId a)) (bd a)
           (c2\<lparr>lastReceivedDatetime := Some (dt a)\<rparr>)"
    using r2 l2 ne by (intro onQRDataReceived_fresh) auto
qed

text \<open>
  An instance: the Receiver of the example session sees the envelope stamped 200, the one
  stamped 201 and the first again. The third sighting commits a chunk a second time.
\<close>

theorem C9_nonce_overwritten_before_dispatch_witness:
  "isRunning (receiver demoSession) \<and>
   lastReceivedDatetime
     (snd (onQRDataReceived demoPlatform 600 (Some \<lparr> ckTId = 100, bd = [], dt = 7 \<rparr>)
        (receiver demoSession))) = Some 7 \<and>
   onQRDataReceived demoPlatform 603 (Some \<lparr> ckTId = 2, bd = ''BAUGBw=='', dt = 200 \<rparr>)
     (snd (onQRDataReceived demoPlatform 602 (Some \<lparr> ckTId = 2, bd = ''BAUGBw=='', dt = 201 \<rparr>)
        (snd (onQRDataReceived demoPlatform 601 (Some \<lparr> ckTId = 2, bd = ''BAUGBw=='', dt = 200 \<rparr>)
           (receiver demoSession))))) =
   onQRDataReceivedSwitch demoPlatform 603 okNext ''BAUGBw==''
     ((snd (onQRDataReceived demoPlatform 602 (Some \<lparr> ckTId = 2, bd = ''BAUGBw=='', dt = 201 \<rparr>)
        (snd (onQRDataReceived demoPlatform 601 (Some \<lparr> ckTId = 2, bd = ''BAUGBw=='', dt = 200 \<rparr>)
           (receiver demoSession)))))\<lparr>lastReceivedDatetime := Some 200\<rparr>)"
proof -
  let ?a = "\<lparr> ckTId = 2, bd = ''BAUGBw=='', dt = 200 \<rparr>"
  let ?b = "\<lparr> ckTId = 2, bd = ''BAUGBw=='', dt = 201 \<rparr>"
  let ?c1 = "snd (onQRDataReceived demoPlatform 601 (Some ?a) (receiver demoSession))"
  let ?c2 = "snd (onQRDataReceived demoPlatform 602 (Some ?b) ?c1)"
  have h0: "isRunning (receiver demoSession)" by code_simp
  have h1: "isRunning ?c1" by code_simp
  have h2: "isRunning ?c2" by code_simp
  have ne: "dt ?a \<noteq> dt ?b" by simp
  have e1: "chunkTypeFromId (ckTId ?a) = okNext" by (simp add: chunkTypeFromId_def)
  have e2: "bd ?a = ''BAUGBw==''" by simp
  have e3: "dt ?a = 200" by simp
  have e4: "dt \<lparr> ckTId = 100, bd = [], dt = 7 \<rparr> = 7" by simp
  note th = C9_nonce_overwritten_before_dispatch[OF h0, of demoPlatform 600
      "\<lparr> ckTId = 100, bd = [], dt = 7 \<rparr>" ?a ?b ?c1 601 ?c2 602 603]
  from th have p1: "lastReceivedDatetime
     (snd (onQRDataReceived demoPlatform 600 (Some \<lparr> ckTId = 100, bd = [], dt = 7 \<rparr>)
        (receiver demoSession))) = Some (dt \<lparr> ckTId = 100, bd = [], dt = 7 \<rparr>)"
    by (rule conjunct1)
  from th ne h1 h2 have p2: "onQRDataReceived demoPlatform 603 (Some ?a) ?c2 =
       onQRDataReceivedSwitch demoPlatform 603 (chunkTypeFromId (ckTId ?a)) (bd ?a)
         (?c2\<lparr>lastReceivedDatetime := Some (dt ?a)\<rparr>)"
    by blast
  from h0 p1[unfolded e4] p2[unfolded e1 e2 e3] show ?thesis by blast
qed

subsection \<open>The Receiver: commit, pending slot, finalize\<close>

text \<open>
  C10: on a reader, or with an empty pending slot, \<^verbatim>\<open>writerCommitPendingChunk\<close> returns
  the worker as it is (buffer, cursor and the three cached fields included). So a
  \<^verbatim>\<open>completed\<close> envelope that a running Receiver sees with an empty slot downloads the
  concatenation of the chunks committed before, under the stored name and type.
\<close>

theorem C10_commit_without_pending_is_noop:
  "(readMode w = True \<or> lastChunkBlob w = None \<longrightarrow> writerCommitPendingChunk w = w) \<and>
   (isRunning c \<and> displayedView c = Some receiveFile \<and> fileWorker c = Some w \<and>
    readMode w = False \<and> lastChunkBlob w = None \<and>
    lastReceivedDatetime c \<noteq> Some (dt jsObj) \<and> ckTId jsObj = 50 \<longrightarrow>
    downloads (snd (onQRDataReceived P now (Some jsObj) c)) =
      downloads c @ [\<lparr> downloadName = inputFileName w, downloadType = inputFileType w,
                       downloadBytes = concat (writerBuffer w) \<rparr>])"
proof (intro conjI impI)
  assume "readMode w = True \<or> lastChunkBlob w = None"
  then show "writerCommitPendingChunk w = w" by (rule writerCommitPendingChunk_noop)
next
  assume h: "isRunning c \<and> displayedView c = Some receiveFile \<and> fileWorker c = Some w \<and>
    readMode w = False \<and> lastChunkBlob w = None \<and>
    lastReceivedDatetime c \<noteq> Some (dt jsObj) \<and> ckTId jsObj = 50"
  then have "onQRDataReceived P now (Some jsObj) c =
      onQRDataReceivedReceiveFile P now completed (bd jsObj)
        (c\<lparr>lastReceivedDatetime := Some (dt jsObj)\<rparr>)"
    by (simp add: onQRDataReceived_fresh_receiveFile chunkTypeFromId_def)
  with h show "downloads (snd (onQRDataReceived P now (Some jsObj) c)) =
      downloads c @ [\<lparr> downloadName = inputFileName w, downloadType = inputFileType w,
                       downloadBytes = concat (writerBuffer w) \<rparr>]"
    by (simp add: onQRDataReceivedReceiveFile_def writerCommitPendingChunk_noop Let_def
        writerDownloadFile_def writerCreateDownloadFile_def stopReceiving_def setupReceiver_def
        setQRCodeViewer_def isSenderReceiverView_def reset_def updateQRImage_def)
qed

theorem C10_commit_without_pending_is_noop_witness:
  "lastChunkBlob (writerCommitPendingChunk (createWriter demoMeta)) = None \<and>
   writerCommitPendingChunk (writerCommitPendingChunk (createWriter demoMeta)) =
     writerCommitPendingChunk (createWriter demoMeta) \<and>
   downloads (snd (onQRDataReceived demoPlatform 600 (Some \<lparr> ckTId = 50, bd = [], dt = 9 \<rparr>)
     ((receiver demoSession)\<lparr>fileWorker := Some (createWriter demoMeta)\<rparr>))) =
     [\<lparr> downloadName = Some ''a.bin'', downloadType = Some ''application/octet-stream'',
        downloadBytes = [] \<rparr>]"
proof -
  let ?w = "createWriter demoMeta"
  let ?c = "(receiver demoSession)\<lparr>fileWorker := Some ?w\<rparr>"
  let ?ob = "\<lparr> ckTId = 50, bd = [], dt = 9 \<rparr>"
  have h1: "lastChunkBlob (writerCommitPendingChunk ?w) = None" by code_simp
  have h2: "isRunning ?c \<and> displayedView ?c = Some receiveFile \<and> fileWorker ?c = Some ?w \<and>
    readMode ?w = False \<and> lastChunkBlob ?w = None \<and>
    lastReceivedDatetime ?c \<noteq> Some (dt ?ob) \<and> ckTId ?ob = 50" by code_simp
  have e: "downloads ?c @ [\<lparr> downloadName = inputFileName ?w, downloadType = inputFileType ?w,
                       downloadBytes = concat (writerBuffer ?w) \<rparr>] =
     [\<lparr> downloadName = Some ''a.bin'', downloadType = Some ''application/octet-stream'',
        downloadBytes = [] \<rparr>]" by code_simp
  from C10_commit_without_pending_is_noop[of "writerCommitPendingChunk ?w" ?c ?ob demoPlatform 600] h1
  have p1: "writerCommitPendingChunk (writerCommitPendingChunk ?w) = writerCommitPendingChunk ?w"
    by blast
  from C10_commit_without_pending_is_noop[of ?w ?c ?ob demoPlatform 600] h2
  have "downloads (snd (onQRDataReceived demoPlatform 600 (Some ?ob) ?c)) =
      downloads ?c @ [\<lparr> downloadName = inputFileName ?w, downloadType = inputFileType ?w,
                       downloadBytes = concat (writerBuffer ?w) \<rparr>]"
    by blast
  from this e have p2: "downloads (snd (onQRDataReceived demoPlatform 600 (Some ?ob) ?c)) =
     [\<lparr> downloadName = Some ''a.bin'', downloadType = Some ''application/octet-stream'',
        downloadBytes = [] \<rparr>]" by (rule trans)
  from h1 p1 p2 show ?thesis by blast
qed

text \<open>
  C5: a running Receiver with a session sees a fresh chunk envelope whose body \<open>atob\<close>
  decodes. On \<^verbatim>\<open>ok_next\<close> the pending chunk, if there is one, is appended to the buffer
  first; on \<^verbatim>\<open>invalid_sha256\<close> the buffer and the cursor stay as they are and the pending
  chunk is overwritten. In both cases the carried wire form becomes the pending chunk and
  the reply \<^verbatim>\<open>eval_sha256\<close> carries its digest.
\<close>

theorem C5_ok_next_commits_invalid_discards:
  assumes "isRunning c" and "displayedView c = Some receiveFile"
    and "fileWorker c = Some w" and "readMode w = False"
    and "lastReceivedDatetime c \<noteq> Some (dt jsObj)"
    and "bufferArrayFromBase64 P (trim (bd jsObj)) = Some raw"
    and "sha256 P (Some (bd jsObj)) = Some d"
  shows "(ckTId jsObj = 2 \<longrightarrow>
      onQRDataReceived P now (Some jsObj) c =
        (Returned,
         c\<lparr>lastReceivedDatetime := Some (dt jsObj),
           fileWorker := Some
             ((writerCommitPendingChunk w)
                \<lparr>lastChunkBlob := Some raw, lastChunkBase64 := Some (bd jsObj),
                 lastChunkSha256 := Some d\<rparr>),
           qrImage := Some \<lparr> ckTId = 3, bd = d, dt = now \<rparr>\<rparr>) \<and>
      writerBuffer (writerCommitPendingChunk w) =
        (case lastChunkBlob w of None \<Rightarrow> writerBuffer w | Some blob \<Rightarrow> writerBuffer w @ [blob])) \<and>
    (ckTId jsObj = 4 \<longrightarrow>
      onQRDataReceived P now (Some jsObj) c =
        (Returned,
         c\<lparr>lastReceivedDatetime := Some (dt jsObj),
           fileWorker := Some
             (w\<lparr>lastChunkBlob := Some raw, lastChunkBase64 := Some (bd jsObj),
                lastChunkSha256 := Some d\<rparr>),
           qrImage := Some \<lparr> ckTId = 3, bd = d, dt = now \<rparr>\<rparr>))"
proof -
  have v: "isSenderReceiverView (c\<lparr>lastReceivedDatetime := Some (dt jsObj), fileWorker := x\<rparr>)" for x
    using assms(2) by (simp add: isSenderReceiverView_def)
  have td: "trim d = d" using assms(7) by (rule sha256_trimmed)
  have rm: "readMode (writerCommitPendingChunk w) = False"
    using assms(4) by (simp add: writerCommitPendingChunk_def split: option.splits)
  have wb: "writerBuffer (writerCommitPendingChunk w) =
        (case lastChunkBlob w of None \<Rightarrow> writerBuffer w | Some blob \<Rightarrow> writerBuffer w @ [blob])"
    using assms(4) by (simp add: writerCommitPendingChunk_def split: option.splits)
  show ?thesis
    using assms v td rm wb
    by (simp add: onQRDataReceived_fresh_receiveFile chunkTypeFromId_def
        onQRDataReceivedReceiveFile_def writerSetPendingChunk_ok updateQRImage_shown)
qed

theorem C5_ok_next_commits_invalid_discards_witness:
  "onQRDataReceived demoPlatform 600 (Some \<lparr> ckTId = 2, bd = ''BAUGBw=='', dt = 103 \<rparr>)
     (receiver demoSession) =
     (Returned,
      (receiver demoSession)
        \<lparr>lastReceivedDatetime := Some 103,
         fileWorker := Some
           ((writerCommitPendingChunk (createWriter demoMeta
                \<lparr>lastChunkBlob := Some [0, 1, 2, 3], lastChunkBase64 := Some ''AAECAw=='',
                 lastChunkSha256 := Some ''4141454341773d3d''\<rparr>))
              \<lparr>lastChunkBlob := Some [4, 5, 6, 7], lastChunkBase64 := Some ''BAUGBw=='',
               lastChunkSha256 := Some ''4241554742773d3d''\<rparr>),
         qrImage := Some \<lparr> ckTId = 3, bd = ''4241554742773d3d'', dt = 600 \<rparr>\<rparr>) \<and>
   writerBuffer (writerCommitPendingChunk (createWriter demoMeta
       \<lparr>lastChunkBlob := Some [0, 1, 2, 3], lastChunkBase64 := Some ''AAECAw=='',
        lastChunkSha256 := Some ''4141454341773d3d''\<rparr>)) = [[0, 1, 2, 3]] \<and>
   onQRDataReceived demoPlatform 600 (Some \<lparr> ckTId = 4, bd = ''BAUGBw=='', dt = 103 \<rparr>)
     (receiver demoSession) =
     (Returned,
      (receiver demoSession)
        \<lparr>lastReceivedDatetime := Some 103,
         fileWorker := Some
           (createWriter demoMeta
              \<lparr>lastChunkBlob := Some [4, 5, 6, 7], lastChunkBase64 := Some ''BAUGBw=='',
               lastChunkSha256 := Some ''4241554742773d3d''\<rparr>),
         qrImage := Some \<lparr> ckTId = 3, bd = ''4241554742773d3d'', dt = 600 \<rparr>\<rparr>)"
proof -
  let ?w = "createWriter demoMeta
       \<lparr>lastChunkBlob := Some [0, 1, 2, 3], lastChunkBase64 := Some ''AAECAw=='',
        lastChunkSha256 := Some ''4141454341773d3d''\<rparr>"
  let ?ob = "\<lparr> ckTId = 2, bd = ''BAUGBw=='', dt = 103 \<rparr>"
  let ?ob4 = "\<lparr> ckTId = 4, bd = ''BAUGBw=='', dt = 103 \<rparr>"
  have h1: "isRunning (receiver demoSession)" by code_simp
  have h2: "displayedView (receiver demoSession) = Some receiveFile" by code_simp
  have h3: "fileWorker (receiver demoSession) = Some ?w" by code_simp
  have h4: "readMode ?w = False" by code_simp
  have h5: "lastReceivedDatetime (receiver demoSession) \<noteq> Some (dt ?ob)" by code_simp
  have h6: "bufferArrayFromBase64 demoPlatform (trim (bd ?ob)) = Some [4, 5, 6, 7]" by code_simp
  have h7: "sha256 demoPlatform (Some (bd ?ob)) = Some ''4241554742773d3d''" by code_simp
  have h5': "lastReceivedDatetime (receiver demoSession) \<noteq> Some (dt ?ob4)" by code_simp
  have h6': "bufferArrayFromBase64 demoPlatform (trim (bd ?ob4)) = Some [4, 5, 6, 7]" by code_simp
  have h7': "sha256 demoPlatform (Some (bd ?ob4)) = Some ''4241554742773d3d''" by code_simp
  have e: "(case lastChunkBlob ?w of None \<Rightarrow> writerBuffer ?w | Some blob \<Rightarrow> writerBuffer ?w @ [blob])
     = [[0, 1, 2, 3]]" by code_simp
  have e': "writerBuffer (createWriter demoMeta) = []" by code_simp
  from C5_ok_next_commits_invalid_discards[OF h1 h2 h3 h4 h5 h6 h7, of 600]
    C5_ok_next_commits_invalid_discards[OF h1 h2 h3 h4 h5' h6' h7', of 600]
  show ?thesis by (simp add: e e')
qed

subsection \<open>The Sender: the digest test\<close>

lemma readNextChunk_reader_cases:
  assumes "readMode w = True" and "readNextChunk P w = (Returned, w')"
  shows "lastChunkSha256 w' = sha256 P (lastChunkBase64 w') \<and>
         (\<forall>b. lastChunkBase64 w' = Some b \<longrightarrow> trim b = b)"
  using assms
  by (auto simp: readNextChunk_def Let_def sha256_def blobAsBase64_trimmed
      split: option.splits if_splits)

text \<open>
  C6: a running Sender whose worker caches the wire form \<open>b\<close> of the current chunk sees a
  fresh \<^verbatim>\<open>eval_sha256\<close> whose body differs from the cached digest. The handler returns
  the state with the new time stamp stored and the envelope \<^verbatim>\<open>invalid_sha256\<close> shown, its
  body the cached string; the worker (cursor and cache) is the same, and nothing is read
  from the file. A cache filled by \<^verbatim>\<open>readNextChunk\<close> is already trimmed, so the body is
  the cached string itself.
\<close>

theorem C6_mismatch_redisplays_cached_chunk:
  assumes "isRunning c" and "displayedView c = Some sendFile"
    and "fileWorker c = Some w" and "lastChunkBase64 w = Some b"
    and "lastReceivedDatetime c \<noteq> Some (dt jsObj)" and "ckTId jsObj = 3"
    and "Some (bd jsObj) \<noteq> lastChunkSha256 w"
  shows "onQRDataReceived P now (Some jsObj) c =
           (Returned,
            c\<lparr>lastReceivedDatetime := Some (dt jsObj),
              qrImage := Some \<lparr> ckTId = 4, bd = trim b, dt = now \<rparr>\<rparr>) \<and>
         fileWorker (snd (onQRDataReceived P now (Some jsObj) c)) = Some w \<and>
         (\<forall>w0. readMode w0 = True \<and> readNextChunk P w0 = (Returned, w) \<longrightarrow> trim b = b)"
proof -
  have v: "isSenderReceiverView (c\<lparr>lastReceivedDatetime := Some (dt jsObj)\<rparr>)"
    using assms(2) by (simp add: isSenderReceiverView_def)
  have r: "onQRDataReceived P now (Some jsObj) c =
           (Returned,
            c\<lparr>lastReceivedDatetime := Some (dt jsObj),
              qrImage := Some \<lparr> ckTId = 4, bd = trim b, dt = now \<rparr>\<rparr>)"
    using assms v
    by (simp add: onQRDataReceived_fresh_sendFile chunkTypeFromId_def
        onQRDataReceivedSendFile_def Let_def updateQRImage_shown)
  have t: "\<forall>w0. readMode w0 = True \<and> readNextChunk P w0 = (Returned, w) \<longrightarrow> trim b = b"
    using readNextChunk_reader_cases assms(4) by blast
  from r t assms(3) show ?thesis by simp
qed

theorem C6_mismatch_redisplays_cached_chunk_witness:
  "onQRDataReceived demoPlatform 700 (Some \<lparr> ckTId = 3, bd = ''00'', dt = 502 \<rparr>)
     (sender demoSession) =
     (Returned,
      (sender demoSession)
        \<lparr>lastReceivedDatetime := Some 502,
         qrImage := Some \<lparr> ckTId = 4, bd = ''AAECAw=='', dt = 700 \<rparr>\<rparr>) \<and>
   fileWorker (snd (onQRDataReceived demoPlatform 700 (Some \<lparr> ckTId = 3, bd = ''00'', dt = 502 \<rparr>)
     (sender demoSession))) = fileWorker (sender demoSession) \<and>
   qrImage (sender demoSession) = Some \<lparr> ckTId = 2, bd = ''AAECAw=='', dt = 101 \<rparr>"
proof -
  let ?w = "(updateChunkSize 4 (createReader demoFile))
      \<lparr>lastChunkBlob := Some [0, 1, 2, 3], lastChunkBase64 := Some ''AAECAw=='',
       lastChunkSha256 := Some ''4141454341773d3d'', curChunk := 1\<rparr>"
  let ?ob = "\<lparr> ckTId = 3, bd = ''00'', dt = 502 \<rparr>"
  have h1: "isRunning (sender demoSession)" by code_simp
  have h2: "displayedView (sender demoSession) = Some sendFile" by code_simp
  have h3: "fileWorker (sender demoSession) = Some ?w" by code_simp
  have h4: "lastChunkBase64 ?w = Some ''AAECAw==''" by code_simp
  have h5: "lastReceivedDatetime (sender demoSession) \<noteq> Some (dt ?ob)" by code_simp
  have h6: "ckTId ?ob = 3" by simp
  have h7: "Some (bd ?ob) \<noteq> lastChunkSha256 ?w" by code_simp
  have e1: "trim ''AAECAw=='' = ''AAECAw==''" by code_simp
  have e2: "qrImage (sender demoSession) = Some \<lparr> ckTId = 2, bd = ''AAECAw=='', dt = 101 \<rparr>"
    by code_simp
  from C6_mismatch_redisplays_cached_chunk[OF h1 h2 h3 h4 h5 h6 h7, of demoPlatform 700] h3 e2
  show ?thesis by (simp add: e1)
qed

subsection \<open>The digest\<close>

lemma trim_no_whitespace:
  assumes "\<forall>c \<in> set s. \<not> isWhiteSpace c"
  shows "trim s = s"
proof (cases s)
  case Nil
  then show ?thesis by (simp add: trim_def)
next
  case (Cons x xs)
  then have ne: "s \<noteq> []" by simp
  then have "hd s \<in> set s" and "last s \<in> set s" by simp_all
  with assms have "\<not> isWhiteSpace (hd s)" and "\<not> isWhiteSpace (last s)" by blast+
  with ne have "\<not> isWhiteSpace (hd s)" and "\<not> isWhiteSpace (last s)" and "s \<noteq> []"
    by simp_all
  then have a: "dropWhile isWhiteSpace s = s" and b: "dropWhile isWhiteSpace (rev s) = rev s"
    by (simp_all add: dropWhile_eq_self_iff hd_rev)
  show ?thesis by (simp add: trim_def a b)
qed

lemma hexDigit_not_whitespace: "\<not> isWhiteSpace (''0123456789abcdef'' ! (n mod 16))"
proof -
  have "\<forall>c \<in> set ''0123456789abcdef''. \<not> isWhiteSpace c"
    by (simp add: isWhiteSpace_def)
  moreover have "''0123456789abcdef'' ! (n mod 16) \<in> set ''0123456789abcdef''"
    by (rule nth_mem) simp
  ultimately show ?thesis by blast
qed

lemma padStart2_toString16:
  "padStart2 (toString16 b) =
     [''0123456789abcdef'' ! (unat b div 16), ''0123456789abcdef'' ! (unat b mod 16)]"
proof -
  have lt: "unat b < 256" using unsigned_less[of b, where ?'a = nat] by simp
  show ?thesis
  proof (cases "unat b < 16")
    case True
    then show ?thesis by (simp add: padStart2_def toString16_def hexDigit_def)
  next
    case False
    from lt have "unat b div 16 < 16" by simp
    then have "unat b div 16 mod 16 = unat b div 16" by simp
    with False show ?thesis by (simp add: padStart2_def toString16_def hexDigit_def)
  qed
qed

lemma specLowercaseHex_not_whitespace: "\<forall>c \<in> set (specLowercaseHex bs). \<not> isWhiteSpace c"
proof -
  have "\<not> isWhiteSpace (''0123456789abcdef'' ! (unat b div 16))" for b :: byte
  proof -
    have lt: "unat b < 256" using unsigned_less[of b, where ?'a = nat] by simp
    then have "unat b div 16 < 16" by simp
    then have "unat b div 16 = (unat b div 16) mod 16" by simp
    then show ?thesis using hexDigit_not_whitespace[of "unat b div 16"] by simp
  qed
  then show ?thesis
    using hexDigit_not_whitespace by (auto simp: specLowercaseHex_def)
qed

lemma specLowercaseHex_chars: "set (specLowercaseHex bs) \<subseteq> set ''0123456789abcdef''"
proof -
  define H where "H = ''0123456789abcdef''"
  have len: "length H = 16" by (simp add: H_def)
  have a: "H ! (unat x div 16) \<in> set H" for x :: byte
  proof (rule nth_mem)
    have "unat x < 256" using unsigned_less[of x, where ?'a = nat] by simp
    then show "unat x div 16 < length H" by (simp add: len)
  qed
  have b: "H ! (unat x mod 16) \<in> set H" for x :: byte
    by (rule nth_mem) (simp add: len)
  have "specLowercaseHex bs = concat (map (\<lambda>b. [H ! (unat b div 16), H ! (unat b mod 16)]) bs)"
    by (simp add: specLowercaseHex_def H_def)
  then have "set (specLowercaseHex bs) \<subseteq> set H" using a b by auto
  then show ?thesis by (simp only: H_def)
qed

lemma sha256_spec:
  "sha256 P (Some m) = Some (specLowercaseHex (digestSHA256 P (textEncode P m)))"
proof -
  have "concat (map (\<lambda>b. padStart2 (toString16 b)) bs) = specLowercaseHex bs" for bs
    by (simp add: specLowercaseHex_def padStart2_toString16)
  then show ?thesis
    by (simp add: sha256_def Let_def trim_no_whitespace specLowercaseHex_not_whitespace)
qed

text \<open>
  C4: \<^verbatim>\<open>sha256\<close> of a string is the lowercase hexadecimal text of the SHA-256 value of
  the encoded string; a reader's \<^verbatim>\<open>readNextChunk\<close> and a writer's
  \<^verbatim>\<open>writerSetPendingChunk\<close> store that digest of the Base64 string they cache (the
  string, not the Blob). A running Sender that sees a fresh \<^verbatim>\<open>eval_sha256\<close> takes the
  acceptance path exactly when the body is the same string as the cached digest.
\<close>

theorem C4_digest_of_wire_form_string_equality:
  "sha256 P (Some m) = Some (specLowercaseHex (digestSHA256 P (textEncode P m))) \<and>
   set (specLowercaseHex bs) \<subseteq> set ''0123456789abcdef'' \<and>
   (readMode w = True \<and> readNextChunk P w = (Returned, w') \<and> lastChunkBase64 w' = Some b \<longrightarrow>
      lastChunkSha256 w' = Some (specLowercaseHex (digestSHA256 P (textEncode P b)))) \<and>
   (readMode w = False \<and> writerSetPendingChunk P body w = (Returned, w') \<longrightarrow>
      lastChunkBase64 w' = Some body \<and>
      lastChunkSha256 w' = Some (specLowercaseHex (digestSHA256 P (textEncode P body)))) \<and>
   (isRunning c \<and> displayedView c = Some sendFile \<and> fileWorker c = Some ws \<and>
    lastChunkBase64 ws = Some wire \<and> lastChunkSha256 ws = Some d \<and>
    lastReceivedDatetime c \<noteq> Some (dt jsObj) \<and> ckTId jsObj = 3 \<longrightarrow>
      onQRDataReceived P now (Some jsObj) c =
        (if bd jsObj = d then
           (if curChunk ws = fileChunks ws then
              (Returned,
               c\<lparr>lastReceivedDatetime := Some (dt jsObj),
                 qrImage := Some \<lparr> ckTId = 50, bd = [], dt = now \<rparr>,
                 stopSendingTimer := True\<rparr>)
            else
              (case readNextChunk P ws of
                 (Returned, w1) \<Rightarrow>
                   updateQRImage P now (Some okNext) (lastChunkBase64 w1)
                     (c\<lparr>lastReceivedDatetime := Some (dt jsObj), fileWorker := Some w1\<rparr>)
               | (ou, w1) \<Rightarrow>
                   (ou, c\<lparr>lastReceivedDatetime := Some (dt jsObj), fileWorker := Some w1\<rparr>)))
         else
           (Returned,
            c\<lparr>lastReceivedDatetime := Some (dt jsObj),
              qrImage := Some \<lparr> ckTId = 4, bd = trim wire, dt = now \<rparr>\<rparr>)))"
proof (intro conjI impI)
  show "sha256 P (Some m) = Some (specLowercaseHex (digestSHA256 P (textEncode P m)))"
    by (rule sha256_spec)
next
  show "set (specLowercaseHex bs) \<subseteq> set ''0123456789abcdef''"
    by (rule specLowercaseHex_chars)
next
  assume "readMode w = True \<and> readNextChunk P w = (Returned, w') \<and> lastChunkBase64 w' = Some b"
  then show "lastChunkSha256 w' = Some (specLowercaseHex (digestSHA256 P (textEncode P b)))"
    using readNextChunk_reader_cases[of w P w'] by (simp add: sha256_spec)
next
  assume a: "readMode w = False \<and> writerSetPendingChunk P body w = (Returned, w')"
  then show "lastChunkBase64 w' = Some body"
    by (auto simp: writerSetPendingChunk_def split: option.splits)
  from a show "lastChunkSha256 w' = Some (specLowercaseHex (digestSHA256 P (textEncode P body)))"
    by (auto simp: writerSetPendingChunk_def sha256_spec split: option.splits)
next
  assume a: "isRunning c \<and> displayedView c = Some sendFile \<and> fileWorker c = Some ws \<and>
    lastChunkBase64 ws = Some wire \<and> lastChunkSha256 ws = Some d \<and>
    lastReceivedDatetime c \<noteq> Some (dt jsObj) \<and> ckTId jsObj = 3"
  then have v: "isSenderReceiverView (c\<lparr>lastReceivedDatetime := Some (dt jsObj)\<rparr>)"
    by (simp add: isSenderReceiverView_def)
  from a v show "onQRDataReceived P now (Some jsObj) c =
        (if bd jsObj = d then
           (if curChunk ws = fileChunks ws then
              (Returned,
               c\<lparr>lastReceivedDatetime := Some (dt jsObj),
                 qrImage := Some \<lparr> ckTId = 50, bd = [], dt = now \<rparr>,
                 stopSendingTimer := True\<rparr>)
            else
              (case readNextChunk P ws of
                 (Returned, w1) \<Rightarrow>
                   updateQRImage P now (Some okNext) (lastChunkBase64 w1)
                     (c\<lparr>lastReceivedDatetime := Some (dt jsObj), fileWorker := Some w1\<rparr>)
               | (ou, w1) \<Rightarrow>
                   (ou, c\<lparr>lastReceivedDatetime := Some (dt jsObj), fileWorker := Some w1\<rparr>)))
         else
           (Returned,
            c\<lparr>lastReceivedDatetime := Some (dt jsObj),
              qrImage := Some \<lparr> ckTId = 4, bd = trim wire, dt = now \<rparr>\<rparr>))"
    by (simp add: onQRDataReceived_fresh_sendFile chunkTypeFromId_def
        onQRDataReceivedSendFile_def Let_def updateQRImage_shown trim_Nil)
qed

theorem C4_digest_of_wire_form_string_equality_witness:
  "readNextChunk demoPlatform (updateChunkSize 4 (createReader demoFile)) =
     (Returned,
      (updateChunkSize 4 (createReader demoFile))
        \<lparr>lastChunkBlob := Some [0, 1, 2, 3], lastChunkBase64 := Some ''AAECAw=='',
         lastChunkSha256 := Some ''4141454341773d3d'', curChunk := 1\<rparr>) \<and>
   Some ''4141454341773d3d'' =
     Some (specLowercaseHex (digestSHA256 demoPlatform (textEncode demoPlatform ''AAECAw==''))) \<and>
   lastChunkSha256 (snd (writerSetPendingChunk demoPlatform ''AAECAw=='' (createWriter demoMeta))) =
     Some (specLowercaseHex (digestSHA256 demoPlatform (textEncode demoPlatform ''AAECAw==''))) \<and>
   onQRDataReceived demoPlatform 700 (Some \<lparr> ckTId = 3, bd = ''4141454341773d3d'', dt = 502 \<rparr>)
     (sender demoSession) =
     (Returned,
      (sender demoSession)
        \<lparr>lastReceivedDatetime := Some 502,
         fileWorker := Some
           ((updateChunkSize 4 (createReader demoFile))
              \<lparr>lastChunkBlob := Some [4, 5, 6, 7], lastChunkBase64 := Some ''BAUGBw=='',
               lastChunkSha256 := Some ''4241554742773d3d'', curChunk := 2\<rparr>),
         qrImage := Some \<lparr> ckTId = 2, bd = ''BAUGBw=='', dt = 700 \<rparr>\<rparr>)"
proof -
  let ?w0 = "updateChunkSize 4 (createReader demoFile)"
  let ?w1 = "?w0\<lparr>lastChunkBlob := Some [0, 1, 2, 3], lastChunkBase64 := Some ''AAECAw=='',
         lastChunkSha256 := Some ''4141454341773d3d'', curChunk := 1\<rparr>"
  let ?w2 = "?w0\<lparr>lastChunkBlob := Some [4, 5, 6, 7], lastChunkBase64 := Some ''BAUGBw=='',
               lastChunkSha256 := Some ''4241554742773d3d'', curChunk := 2\<rparr>"
  let ?ob = "\<lparr> ckTId = 3, bd = ''4141454341773d3d'', dt = 502 \<rparr>"
  let ?c = "sender demoSession"
  have r1: "readMode ?w0 = True \<and> readNextChunk demoPlatform ?w0 = (Returned, ?w1) \<and>
    lastChunkBase64 ?w1 = Some ''AAECAw==''" by code_simp
  have r2: "readMode (createWriter demoMeta) = False \<and>
    writerSetPendingChunk demoPlatform ''AAECAw=='' (createWriter demoMeta) =
      (Returned, snd (writerSetPendingChunk demoPlatform ''AAECAw=='' (createWriter demoMeta)))"
    by code_simp
  have r3: "isRunning ?c \<and> displayedView ?c = Some sendFile \<and> fileWorker ?c = Some ?w1 \<and>
    lastChunkBase64 ?w1 = Some ''AAECAw=='' \<and> lastChunkSha256 ?w1 = Some ''4141454341773d3d'' \<and>
    lastReceivedDatetime ?c \<noteq> Some (dt ?ob) \<and> ckTId ?ob = 3" by code_simp
  have e1: "lastChunkSha256 ?w1 = Some ''4141454341773d3d''" by simp
  have e2: "curChunk ?w1 \<noteq> fileChunks ?w1" by code_simp
  have e3: "readNextChunk demoPlatform ?w1 = (Returned, ?w2)" by code_simp
  have e4: "updateQRImage demoPlatform 700 (Some okNext) (Some ''BAUGBw=='')
      (?c\<lparr>lastReceivedDatetime := Some 502, fileWorker := Some ?w2\<rparr>) =
     (Returned, ?c\<lparr>lastReceivedDatetime := Some 502, fileWorker := Some ?w2,
         qrImage := Some \<lparr> ckTId = 2, bd = ''BAUGBw=='', dt = 700 \<rparr>\<rparr>)" by code_simp
  note th1 = C4_digest_of_wire_form_string_equality[where P = demoPlatform and w = ?w0
      and w' = ?w1 and b = "''AAECAw==''"]
  note th2 = C4_digest_of_wire_form_string_equality[where P = demoPlatform
      and w = "createWriter demoMeta" and body = "''AAECAw==''"
      and w' = "snd (writerSetPendingChunk demoPlatform ''AAECAw=='' (createWriter demoMeta))"
      and c = ?c and ws = ?w1 and wire = "''AAECAw==''" and d = "''4141454341773d3d''"
      and jsObj = ?ob and now = 700]
  from th1 r1 have p1: "lastChunkSha256 ?w1 =
     Some (specLowercaseHex (digestSHA256 demoPlatform (textEncode demoPlatform ''AAECAw=='')))"
    by blast
  from th2 r2 have p2: "lastChunkSha256
      (snd (writerSetPendingChunk demoPlatform ''AAECAw=='' (createWriter demoMeta))) =
     Some (specLowercaseHex (digestSHA256 demoPlatform (textEncode demoPlatform ''AAECAw=='')))"
    by blast
  from th2 r3 have p3: "onQRDataReceived demoPlatform 700 (Some ?ob) ?c =
        (if bd ?ob = ''4141454341773d3d'' then
           (if curChunk ?w1 = fileChunks ?w1 then
              (Returned,
               ?c\<lparr>lastReceivedDatetime := Some (dt ?ob),
                 qrImage := Some \<lparr> ckTId = 50, bd = [], dt = 700 \<rparr>,
                 stopSendingTimer := True\<rparr>)
            else
              (case readNextChunk demoPlatform ?w1 of
                 (Returned, w1) \<Rightarrow>
                   updateQRImage demoPlatform 700 (Some okNext) (lastChunkBase64 w1)
                     (?c\<lparr>lastReceivedDatetime := Some (dt ?ob), fileWorker := Some w1\<rparr>)
               | (ou, w1) \<Rightarrow>
                   (ou, ?c\<lparr>lastReceivedDatetime := Some (dt ?ob), fileWorker := Some w1\<rparr>)))
         else
           (Returned,
            ?c\<lparr>lastReceivedDatetime := Some (dt ?ob),
              qrImage := Some \<lparr> ckTId = 4, bd = trim ''AAECAw=='', dt = 700 \<rparr>\<rparr>))"
    by blast
  have p3': "onQRDataReceived demoPlatform 700 (Some ?ob) ?c =
     (Returned, ?c\<lparr>lastReceivedDatetime := Some 502, fileWorker := Some ?w2,
         qrImage := Some \<lparr> ckTId = 2, bd = ''BAUGBw=='', dt = 700 \<rparr>\<rparr>)"
    unfolding p3 using e2 by (simp add: e3 e4)
  from r1 have p0: "readNextChunk demoPlatform ?w0 = (Returned, ?w1)" by blast
  from p1 e1 have p1': "Some ''4141454341773d3d'' =
     Some (specLowercaseHex (digestSHA256 demoPlatform (textEncode demoPlatform ''AAECAw=='')))"
    by simp
  from p0 p1' p2 p3' show ?thesis by blast
qed

subsection \<open>Meta information and trimming\<close>

text \<open>
  C7, as the code has it: a running Receiver without a session sees a fresh
  \<^verbatim>\<open>meta_info\<close> envelope. When \<^verbatim>\<open>JSON.parse\<close> throws on the body the handler returns and
  no session is created. When the body parses to \<^verbatim>\<open>null\<close> the handler throws a
  \<^verbatim>\<open>TypeError\<close> in \<^verbatim>\<open>createWriter\<close> and no session is created either. In both cases the
  time stamp is stored all the same and nothing is shown. When the body parses to a value
  with the five properties, the worker is created from them as they are and
  \<^verbatim>\<open>meta_info_received\<close> is shown: no field is checked.
\<close>

theorem C7_meta_info_accepted_unvalidated:
  assumes "isRunning c" and "displayedView c = Some receiveFile" and "fileWorker c = None"
    and "lastReceivedDatetime c \<noteq> Some (dt jsObj)" and "ckTId jsObj = 0"
  shows "(JSON_parse P (bd jsObj) = None \<longrightarrow>
            onQRDataReceived P now (Some jsObj) c =
              (Returned, c\<lparr>lastReceivedDatetime := Some (dt jsObj)\<rparr>)) \<and>
         (JSON_parse P (bd jsObj) = Some JsonNull \<longrightarrow>
            onQRDataReceived P now (Some jsObj) c =
              (Threw TypeError, c\<lparr>lastReceivedDatetime := Some (dt jsObj)\<rparr>)) \<and>
         (JSON_parse P (bd jsObj) = Some (JsonObject m) \<longrightarrow>
            onQRDataReceived P now (Some jsObj) c =
              (Returned,
               c\<lparr>lastReceivedDatetime := Some (dt jsObj),
                 fileWorker := Some (createWriter m),
                 qrImage := Some \<lparr> ckTId = 1, bd = [], dt = now \<rparr>\<rparr>) \<and>
            createWriter m =
              newFileWorker
                \<lparr> inputFileType := fileType m, inputFileName := fileName m,
                  fileSize := metaFileSize m, chunkSize := metaChunkSize m,
                  fileChunks := metaFileChunks m, readMode := False \<rparr>)"
proof -
  have v: "isSenderReceiverView (c\<lparr>lastReceivedDatetime := Some (dt jsObj), fileWorker := x\<rparr>)" for x
    using assms(2) by (simp add: isSenderReceiverView_def)
  show ?thesis
    using assms v
    by (simp add: onQRDataReceived_fresh_receiveFile chunkTypeFromId_def
        onQRDataReceivedReceiveFile_def updateQRImage_shown trim_Nil createWriter_def)
qed

theorem C7_meta_info_accepted_unvalidated_witness:
  "onQRDataReceived demoPlatform 600 (Some \<lparr> ckTId = 0, bd = ''not json'', dt = 100 \<rparr>)
     (receiver (startSession demoPlatform demoFile 4 100 500)) =
     (Returned, (receiver (startSession demoPlatform demoFile 4 100 500))
        \<lparr>lastReceivedDatetime := Some 100\<rparr>) \<and>
   onQRDataReceived demoPlatform 600 (Some \<lparr> ckTId = 0, bd = ''null'', dt = 100 \<rparr>)
     (receiver (startSession demoPlatform demoFile 4 100 500)) =
     (Threw TypeError, (receiver (startSession demoPlatform demoFile 4 100 500))
        \<lparr>lastReceivedDatetime := Some 100\<rparr>) \<and>
   onQRDataReceived demoPlatform 600 (Some \<lparr> ckTId = 0, bd = demoMetaText, dt = 100 \<rparr>)
     (receiver (startSession demoPlatform demoFile 4 100 500)) =
     (Returned, (receiver (startSession demoPlatform demoFile 4 100 500))
        \<lparr>lastReceivedDatetime := Some 100, fileWorker := Some (createWriter demoMeta),
         qrImage := Some \<lparr> ckTId = 1, bd = [], dt = 600 \<rparr>\<rparr>)"
proof -
  let ?c = "receiver (startSession demoPlatform demoFile 4 100 500)"
  let ?o1 = "\<lparr> ckTId = 0, bd = ''not json'', dt = 100 \<rparr>"
  let ?o2 = "\<lparr> ckTId = 0, bd = demoMetaText, dt = 100 \<rparr>"
  let ?o3 = "\<lparr> ckTId = 0, bd = ''null'', dt = 100 \<rparr>"
  have h1: "isRunning ?c" by code_simp
  have h2: "displayedView ?c = Some receiveFile" by code_simp
  have h3: "fileWorker ?c = None" by code_simp
  have h4: "lastReceivedDatetime ?c \<noteq> Some (dt ?o1)" by code_simp
  have h4': "lastReceivedDatetime ?c \<noteq> Some (dt ?o2)" by code_simp
  have h4'': "lastReceivedDatetime ?c \<noteq> Some (dt ?o3)" by code_simp
  have h5: "ckTId ?o1 = 0" and h5': "ckTId ?o2 = 0" and h5'': "ckTId ?o3 = 0" by simp_all
  have j1: "JSON_parse demoPlatform (bd ?o1) = None" by code_simp
  have j2: "JSON_parse demoPlatform (bd ?o2) = Some (JsonObject demoMeta)" by code_simp
  have j3: "JSON_parse demoPlatform (bd ?o3) = Some JsonNull" by code_simp
  have d: "dt ?o1 = 100" "dt ?o2 = 100" "dt ?o3 = 100" by simp_all
  from C7_meta_info_accepted_unvalidated[OF h1 h2 h3 h4 h5,
      where P = demoPlatform and m = demoMeta and now = 600] j1
  have p1: "onQRDataReceived demoPlatform 600 (Some ?o1) ?c =
     (Returned, ?c\<lparr>lastReceivedDatetime := Some (dt ?o1)\<rparr>)" by blast
  from C7_meta_info_accepted_unvalidated[OF h1 h2 h3 h4'' h5'',
      where P = demoPlatform and m = demoMeta and now = 600] j3
  have p3: "onQRDataReceived demoPlatform 600 (Some ?o3) ?c =
     (Threw TypeError, ?c\<lparr>lastReceivedDatetime := Some (dt ?o3)\<rparr>)" by blast
  from C7_meta_info_accepted_unvalidated[OF h1 h2 h3 h4' h5',
      where P = demoPlatform and m = demoMeta and now = 600] j2
  have p2: "onQRDataReceived demoPlatform 600 (Some ?o2) ?c =
     (Returned, ?c\<lparr>lastReceivedDatetime := Some (dt ?o2), fileWorker := Some (createWriter demoMeta),
         qrImage := Some \<lparr> ckTId = 1, bd = [], dt = 600 \<rparr>\<rparr>)" by blast
  from p1[unfolded d] p3[unfolded d] p2[unfolded d] show ?thesis by blast
qed

text \<open>
  C7 as stated fails: the body carries an empty file name, a chunk size of 0 and 7 chunks
  for 10 bytes; the Receiver creates the session and shows \<^verbatim>\<open>meta_info_received\<close>.
\<close>

theorem C7_counterexample:
  "JSON_parse demoPlatform demoBadMetaText = Some (JsonObject demoBadMeta) \<and>
   fileName demoBadMeta = Some [] \<and> metaChunkSize demoBadMeta \<le> 0 \<and>
   metaFileSize demoBadMeta = 10 \<and> metaFileChunks demoBadMeta = 7 \<and>
   fileWorker (receiver (startSession demoPlatform demoFile 4 100 500)) = None \<and>
   onQRDataReceived demoPlatform 600 (Some \<lparr> ckTId = 0, bd = demoBadMetaText, dt = 100 \<rparr>)
     (receiver (startSession demoPlatform demoFile 4 100 500)) =
     (Returned, (receiver (startSession demoPlatform demoFile 4 100 500))
        \<lparr>lastReceivedDatetime := Some 100, fileWorker := Some (createWriter demoBadMeta),
         qrImage := Some \<lparr> ckTId = 1, bd = [], dt = 600 \<rparr>\<rparr>)"
  by code_simp

text \<open>
  C8, as the code has it. On emission the body shown is the trimmed input. On observation
  the body is used as it is carried: the Receiver trims it only as the argument of the
  Base64 decoding, and caches and digests the untrimmed string; the Sender compares the
  untrimmed body with its digest.
\<close>

theorem C8_body_trimmed_on_emission_only:
  "(isSenderReceiverView c \<longrightarrow>
      updateQRImage P now (Some t) (Some i) c =
        (Returned, c\<lparr>qrImage := Some \<lparr> ckTId = chunkTypeId t, bd = trim i, dt = now \<rparr>\<rparr>) \<and>
      trim (trim i) = trim i) \<and>
   (readMode w = False \<and> bufferArrayFromBase64 P (trim body) = Some raw \<longrightarrow>
      writerSetPendingChunk P body w =
        (Returned, w\<lparr>lastChunkBlob := Some raw, lastChunkBase64 := Some body,
                     lastChunkSha256 := sha256 P (Some body)\<rparr>)) \<and>
   (isRunning s \<and> displayedView s = Some sendFile \<and> fileWorker s = Some ws \<and>
    lastChunkBase64 ws = Some wire \<and> lastReceivedDatetime s \<noteq> Some (dt jsObj) \<and>
    ckTId jsObj = 3 \<and> Some (bd jsObj) \<noteq> lastChunkSha256 ws \<longrightarrow>
      qrImage (snd (onQRDataReceived P now (Some jsObj) s)) =
        Some \<lparr> ckTId = 4, bd = trim wire, dt = now \<rparr>)"
proof (intro conjI impI)
  assume "isSenderReceiverView c"
  then show "updateQRImage P now (Some t) (Some i) c =
        (Returned, c\<lparr>qrImage := Some \<lparr> ckTId = chunkTypeId t, bd = trim i, dt = now \<rparr>\<rparr>)"
    by (rule updateQRImage_shown)
next
  show "trim (trim i) = trim i" by (rule trim_idem)
next
  assume "readMode w = False \<and> bufferArrayFromBase64 P (trim body) = Some raw"
  then show "writerSetPendingChunk P body w =
        (Returned, w\<lparr>lastChunkBlob := Some raw, lastChunkBase64 := Some body,
                     lastChunkSha256 := sha256 P (Some body)\<rparr>)"
    by (simp add: writerSetPendingChunk_ok)
next
  assume a: "isRunning s \<and> displayedView s = Some sendFile \<and> fileWorker s = Some ws \<and>
    lastChunkBase64 ws = Some wire \<and> lastReceivedDatetime s \<noteq> Some (dt jsObj) \<and>
    ckTId jsObj = 3 \<and> Some (bd jsObj) \<noteq> lastChunkSha256 ws"
  then have v: "isSenderReceiverView (s\<lparr>lastReceivedDatetime := Some (dt jsObj)\<rparr>)"
    by (simp add: isSenderReceiverView_def)
  from a v show "qrImage (snd (onQRDataReceived P now (Some jsObj) s)) =
        Some \<lparr> ckTId = 4, bd = trim wire, dt = now \<rparr>"
    by (simp add: onQRDataReceived_fresh_sendFile chunkTypeFromId_def
        onQRDataReceivedSendFile_def Let_def updateQRImage_shown)
qed

theorem C8_body_trimmed_on_emission_only_witness:
  "updateQRImage demoPlatform 600 (Some okNext) (Some '' AAECAw== '') (sender demoSession) =
     (Returned, (sender demoSession)\<lparr>qrImage := Some \<lparr> ckTId = 2, bd = ''AAECAw=='', dt = 600 \<rparr>\<rparr>) \<and>
   writerSetPendingChunk demoPlatform '' AAECAw== '' (createWriter demoMeta) =
     (Returned, (createWriter demoMeta)
        \<lparr>lastChunkBlob := Some [0, 1, 2, 3], lastChunkBase64 := Some '' AAECAw== '',
         lastChunkSha256 := Some ''204141454341773d3d20''\<rparr>)"
proof -
  have h1: "isSenderReceiverView (sender demoSession)" by code_simp
  have h2: "readMode (createWriter demoMeta) = False \<and>
    bufferArrayFromBase64 demoPlatform (trim '' AAECAw== '') = Some [0, 1, 2, 3]" by code_simp
  have e1: "trim '' AAECAw== '' = ''AAECAw==''" by code_simp
  have e2: "sha256 demoPlatform (Some '' AAECAw== '') = Some ''204141454341773d3d20''"
    by code_simp
  note th = C8_body_trimmed_on_emission_only[where c = "sender demoSession" and P = demoPlatform
      and now = 600 and t = okNext and i = "'' AAECAw== ''" and w = "createWriter demoMeta"
      and body = "'' AAECAw== ''" and raw = "[0, 1, 2, 3]"]
  from th h1 have p1: "updateQRImage demoPlatform 600 (Some okNext) (Some '' AAECAw== '')
      (sender demoSession) =
     (Returned, (sender demoSession)
        \<lparr>qrImage := Some \<lparr> ckTId = chunkTypeId okNext, bd = trim '' AAECAw== '', dt = 600 \<rparr>\<rparr>)"
    by blast
  from th h2 have p2: "writerSetPendingChunk demoPlatform '' AAECAw== '' (createWriter demoMeta) =
     (Returned, (createWriter demoMeta)
        \<lparr>lastChunkBlob := Some [0, 1, 2, 3], lastChunkBase64 := Some '' AAECAw== '',
         lastChunkSha256 := sha256 demoPlatform (Some '' AAECAw== '')\<rparr>)"
    by blast
  from p1 p2 show ?thesis by (simp add: e1 e2)
qed

text \<open>
  C8 as stated fails on the observing side. The Receiver sees a chunk envelope whose body
  has a blank on either side: it caches the body with the blanks and replies with the
  digest of that string. The Sender sees its own digest with a leading blank and answers
  \<^verbatim>\<open>invalid_sha256\<close>, although the trimmed body is the digest it expects.
\<close>

theorem C8_counterexample:
  "trim '' AAECAw== '' = ''AAECAw=='' \<and>
   map_option lastChunkBase64
     (fileWorker (snd (onQRDataReceived demoPlatform 600
        (Some \<lparr> ckTId = 2, bd = '' AAECAw== '', dt = 103 \<rparr>) (receiver demoSession)))) =
     Some (Some '' AAECAw== '') \<and>
   map_option bd
     (qrImage (snd (onQRDataReceived demoPlatform 600
        (Some \<lparr> ckTId = 2, bd = '' AAECAw== '', dt = 103 \<rparr>) (receiver demoSession)))) =
     sha256 demoPlatform (Some '' AAECAw== '') \<and>
   sha256 demoPlatform (Some '' AAECAw== '') \<noteq> sha256 demoPlatform (Some ''AAECAw=='') \<and>
   map_option lastChunkSha256 (fileWorker (sender demoSession)) =
     Some (Some (trim '' 4141454341773d3d'')) \<and>
   qrImage (snd (onQRDataReceived demoPlatform 700
        (Some \<lparr> ckTId = 3, bd = '' 4141454341773d3d'', dt = 502 \<rparr>) (sender demoSession))) =
     Some \<lparr> ckTId = 4, bd = ''AAECAw=='', dt = 700 \<rparr>"
  by code_simp

subsection \<open>Chunks\<close>





subsection \<open>The handler in each phase of a session\<close>

lemma receiver_handles_metaInfo:
  assumes "isRunning c" and "displayedView c = Some receiveFile" and "fileWorker c = None"
    and "lastReceivedDatetime c \<noteq> Some (dt jsObj)" and "ckTId jsObj = 0"
  shows "snd (onQRDataReceived P now (Some jsObj) c) =
           (case JSON_parse P (bd jsObj) of
              Some (JsonObject m) \<Rightarrow>
                c\<lparr>lastReceivedDatetime := Some (dt jsObj), fileWorker := Some (createWriter m),
                  qrImage := Some \<lparr> ckTId = 1, bd = [], dt = now \<rparr>\<rparr>
            | _ \<Rightarrow> c\<lparr>lastReceivedDatetime := Some (dt jsObj)\<rparr>)"
proof -
  have v: "isSenderReceiverView (c\<lparr>lastReceivedDatetime := Some (dt jsObj), fileWorker := x\<rparr>)" for x
    using assms(2) by (simp add: isSenderReceiverView_def)
  show ?thesis
    using assms v
    by (simp add: onQRDataReceived_fresh_receiveFile chunkTypeFromId_def
        onQRDataReceivedReceiveFile_def updateQRImage_shown trim_Nil
        split: option.splits json.splits)
qed



lemma senderWorker_fields:
  "readMode (senderWorker P f k j) = True"
  "inputFile (senderWorker P f k j) = Some f"
  "chunkSize (senderWorker P f k j) = k"
  "curChunk (senderWorker P f k j) = int j"
  "fileChunks (senderWorker P f k j) = fileChunks (updateChunkSize k (createReader f))"
  by (simp_all add: senderWorker_def updateChunkSize_def createReader_def newFileWorker_def Let_def)

lemma senderWorker_cache:
  "0 < j \<Longrightarrow> lastChunkBase64 (senderWorker P f k j) = blobAsBase64 P (chunkAt f k (int j - 1))"
  "0 < j \<Longrightarrow> lastChunkSha256 (senderWorker P f k j) =
     sha256 P (blobAsBase64 P (chunkAt f k (int j - 1)))"
  by (simp_all add: senderWorker_def)

lemma readNextChunk_senderWorker:
  assumes "int j < fileChunks (updateChunkSize k (createReader f))"
  shows "readNextChunk P (senderWorker P f k j) =
           (case blobAsBase64 P (chunkAt f k (int j)) of
              None \<Rightarrow> (Stalled, (senderWorker P f k j)\<lparr>lastChunkBlob := Some (chunkAt f k (int j))\<rparr>)
            | Some b \<Rightarrow> (Returned, senderWorker P f k (Suc j)))"
proof -
  have fc: "fileChunks (senderWorker P f k j) = fileChunks (updateChunkSize k (createReader f))"
    by (rule senderWorker_fields)
  show ?thesis
    using assms
    by (auto simp: readNextChunk_def Let_def senderWorker_fields chunkAt_def[symmetric]
        split: option.splits)
      (simp_all add: senderWorker_def updateChunkSize_def createReader_def newFileWorker_def
        Let_def)
qed

lemma readNextChunk_senderWorker_end:
  assumes "fileChunks (updateChunkSize k (createReader f)) \<le> 0"
  shows "readNextChunk P (senderWorker P f k 0) = (Returned, senderWorker P f k 0)"
  using assms
  by (simp add: readNextChunk_def senderWorker_def updateChunkSize_def createReader_def
      newFileWorker_def Let_def)

lemma sender_handles_metaInfoReceived:
  assumes "senderAdvertising P f k c" and "ckTId jsObj = 1"
  shows "snd (onQRDataReceived P now (Some jsObj) c) =
     (if fileChunks (updateChunkSize k (createReader f)) \<le> 0 then
        (if qrViewHasImg P then c\<lparr>lastReceivedDatetime := Some (dt jsObj), qrImage := None\<rparr>
         else c\<lparr>lastReceivedDatetime := Some (dt jsObj)\<rparr>)
      else
        (case blobAsBase64 P (chunkAt f k 0) of
           None \<Rightarrow>
             c\<lparr>lastReceivedDatetime := Some (dt jsObj),
               fileWorker := Some ((senderWorker P f k 0)\<lparr>lastChunkBlob := Some (chunkAt f k 0)\<rparr>)\<rparr>
         | Some b \<Rightarrow>
             c\<lparr>lastReceivedDatetime := Some (dt jsObj),
               fileWorker := Some (senderWorker P f k (Suc 0)),
               qrImage := Some \<lparr> ckTId = 2, bd = b, dt = now \<rparr>\<rparr>))"
proof -
  from assms(1) have r: "isRunning c" and vw: "displayedView c = Some sendFile"
    and fw: "fileWorker c = Some (senderWorker P f k 0)" and l: "lastReceivedDatetime c = None"
    by (simp_all add: senderAdvertising_def)
  have v: "isSenderReceiverView (c\<lparr>lastReceivedDatetime := Some (dt jsObj), fileWorker := x\<rparr>)" for x
    using vw by (simp add: isSenderReceiverView_def)
  have sw: "onQRDataReceived P now (Some jsObj) c =
      onQRDataReceivedSendFile P now metaInfoReceived (bd jsObj)
        (c\<lparr>lastReceivedDatetime := Some (dt jsObj)\<rparr>)"
    using r vw l assms(2) by (simp add: onQRDataReceived_fresh_sendFile chunkTypeFromId_def)
  have same: "c\<lparr>lastReceivedDatetime := Some (dt jsObj), fileWorker := Some (senderWorker P f k 0)\<rparr>
      = c\<lparr>lastReceivedDatetime := Some (dt jsObj)\<rparr>"
    using fw by simp
  show ?thesis
  proof (cases "fileChunks (updateChunkSize k (createReader f)) \<le> 0")
    case True
    have n: "lastChunkBase64 (senderWorker P f k 0) = None"
      by (simp add: senderWorker_def updateChunkSize_def createReader_def newFileWorker_def
          Let_def)
    from True fw v n same show ?thesis
      unfolding sw
      by (simp add: onQRDataReceivedSendFile_def readNextChunk_senderWorker_end
          updateQRImage_def)
  next
    case False
    then have lt: "int 0 < fileChunks (updateChunkSize k (createReader f))" by simp
    show ?thesis
    proof (cases "blobAsBase64 P (chunkAt f k 0)")
      case None
      with False fw show ?thesis
        unfolding sw
        by (simp add: onQRDataReceivedSendFile_def readNextChunk_senderWorker[OF lt])
    next
      case (Some b)
      then have tb: "trim b = b" by (rule blobAsBase64_trimmed)
      have c1: "lastChunkBase64 (senderWorker P f k (Suc 0)) = Some b"
        using Some by (simp add: senderWorker_cache)
      from Some False fw v tb c1 show ?thesis
        unfolding sw
        by (simp add: onQRDataReceivedSendFile_def readNextChunk_senderWorker[OF lt]
            updateQRImage_shown)
    qed
  qed
qed


subsection \<open>Time stamps are bounded by the clocks\<close>

lemma updateQRImage_qrImage:
  "updateQRImage P now t i c = (ou, c') \<Longrightarrow> qrImage c' = Some q \<Longrightarrow>
   qrImage c = Some q \<or> dt q = now"
  by (auto simp: updateQRImage_def split: if_splits option.splits)

lemma stopReceiving_qrImage:
  "stopReceiving P now c = (ou, c') \<Longrightarrow> qrImage c' = Some q \<Longrightarrow>
   qrImage c = Some q \<or> dt q = now"
  by (auto simp: stopReceiving_def setupReceiver_def setQRCodeViewer_def reset_def
      updateQRImage_def split: option.splits if_splits)

lemma stopSending_qrImage:
  "stopSending P now c = (ou, c') \<Longrightarrow> qrImage c' = Some q \<Longrightarrow>
   qrImage c = Some q \<or> dt q = now"
  by (auto simp: stopSending_def setupSender_def setQRCodeViewer_def reset_def
      updateQRImage_def split: option.splits if_splits)

lemma writerDownloadFile_qrImage:
  "writerDownloadFile w c = (ou, c') \<Longrightarrow> qrImage c' = qrImage c"
  by (auto simp: writerDownloadFile_def split: option.splits)

lemma onQRDataReceivedSendFile_qrImage:
  "onQRDataReceivedSendFile P now chunkType qrData c = (ou, c') \<Longrightarrow> qrImage c' = Some q \<Longrightarrow>
   qrImage c = Some q \<or> dt q = now"
  by (auto simp: onQRDataReceivedSendFile_def Let_def
      split: ChunkType.splits option.splits prod.splits outcome.splits if_splits
      dest!: updateQRImage_qrImage)

lemma onQRDataReceivedReceiveFile_qrImage:
  "onQRDataReceivedReceiveFile P now chunkType qrData c = (ou, c') \<Longrightarrow> qrImage c' = Some q \<Longrightarrow>
   qrImage c = Some q \<or> dt q = now"
  by (auto simp: onQRDataReceivedReceiveFile_def Let_def
      split: ChunkType.splits option.splits json.splits prod.splits outcome.splits if_splits
      dest!: updateQRImage_qrImage stopReceiving_qrImage writerDownloadFile_qrImage)

lemma onQRDataReceived_qrImage:
  assumes "qrImage (snd (onQRDataReceived P now rawData c)) = Some q"
  shows "qrImage c = Some q \<or> dt q = now"
proof -
  obtain ou c' where r: "onQRDataReceived P now rawData c = (ou, c')"
    by (cases "onQRDataReceived P now rawData c") blast
  with assms have q: "qrImage c' = Some q" by simp
  from r show ?thesis
  proof (cases "isRunning c = False \<or> rawData = None")
    case True
    with r q show ?thesis by (auto simp: onQRDataReceived_def split: if_splits)
  next
    case False
    then obtain jsObj where ob: "rawData = Some jsObj" and run: "isRunning c" by auto
    show ?thesis
    proof (cases "lastReceivedDatetime c = Some (dt jsObj)")
      case True
      with r q ob run show ?thesis by (simp add: onQRDataReceived_dropped)
    next
      case False
      with r ob run have sw: "onQRDataReceivedSwitch P now (chunkTypeFromId (ckTId jsObj)) (bd jsObj)
          (c\<lparr>lastReceivedDatetime := Some (dt jsObj)\<rparr>) = (ou, c')"
        by (simp add: onQRDataReceived_fresh)
      then show ?thesis
        using q onQRDataReceivedSendFile_qrImage[of P now "chunkTypeFromId (ckTId jsObj)"
            "bd jsObj" "c\<lparr>lastReceivedDatetime := Some (dt jsObj)\<rparr>" ou c' q]
          onQRDataReceivedReceiveFile_qrImage[of P now "chunkTypeFromId (ckTId jsObj)"
            "bd jsObj" "c\<lparr>lastReceivedDatetime := Some (dt jsObj)\<rparr>" ou c' q]
        by (auto simp: onQRDataReceivedSwitch_def split: option.splits ViewOption.splits)
    qed
  qed
qed

lemma onQRDataReceived_lastReceivedDatetime_cases:
  "lastReceivedDatetime (snd (onQRDataReceived P now (Some jsObj) c)) = Some (dt jsObj) \<or>
   lastReceivedDatetime (snd (onQRDataReceived P now (Some jsObj) c)) = lastReceivedDatetime c"
  by (cases "isRunning c")
    (simp_all add: onQRDataReceived_lastReceivedDatetime onQRDataReceived_notRunning)

lemma garble_dt: "dt (garble noise q) = dt q" and garble_ckTId: "ckTId (garble noise q) = ckTId q"
  by (simp_all add: garble_def split: option.splits)

lemma stopSending_lastReceivedDatetime:
  "lastReceivedDatetime (snd (stopSending P now c)) = lastReceivedDatetime c"
  by (auto simp: stopSending_def setupSender_def setQRCodeViewer_def reset_def
      updateQRImage_def split: option.splits if_splits)

lemma clocksOk_step:
  assumes "clocksOk s"
  shows "clocksOk (step P e s)"
proof (cases e)
  case (ReceiverObserves d noise)
  show ?thesis
  proof (cases "qrImage (sender s)")
    case None
    with assms ReceiverObserves show ?thesis
      by (auto simp: clocksOk_def Let_def)
  next
    case (Some q)
    let ?now = "receiverClock s + 1 + int d"
    let ?r = "snd (onQRDataReceived P ?now (Some (garble noise q)) (receiver s))"
    have st: "step P e s = s\<lparr>receiver := ?r, receiverClock := ?now\<rparr>"
      using ReceiverObserves Some by (simp add: Let_def)
    have a: "\<forall>n. lastReceivedDatetime ?r = Some n \<longrightarrow> n \<le> senderClock s"
      using onQRDataReceived_lastReceivedDatetime_cases[of P ?now "garble noise q" "receiver s"]
        assms Some by (auto simp: clocksOk_def garble_dt)
    have b: "\<forall>q'. qrImage ?r = Some q' \<longrightarrow> dt q' \<le> ?now"
    proof (intro allI impI)
      fix q' assume "qrImage ?r = Some q'"
      from onQRDataReceived_qrImage[OF this] assms show "dt q' \<le> ?now"
        by (auto simp: clocksOk_def)
    qed
    from assms have c: "\<forall>n. lastReceivedDatetime (sender s) = Some n \<longrightarrow> n \<le> ?now"
      by (auto simp: clocksOk_def)
    from assms a b c show ?thesis
      unfolding st by (simp add: clocksOk_def)
  qed
next
  case (SenderObserves d)
  show ?thesis
  proof (cases "qrImage (receiver s)")
    case None
    with assms SenderObserves show ?thesis
      by (auto simp: clocksOk_def Let_def)
  next
    case (Some q)
    let ?now = "senderClock s + 1 + int d"
    let ?r = "snd (onQRDataReceived P ?now (Some q) (sender s))"
    have st: "step P e s = s\<lparr>sender := ?r, senderClock := ?now\<rparr>"
      using SenderObserves Some by (simp add: Let_def)
    have a: "\<forall>n. lastReceivedDatetime ?r = Some n \<longrightarrow> n \<le> receiverClock s"
      using onQRDataReceived_lastReceivedDatetime_cases[of P ?now q "sender s"]
        assms Some by (auto simp: clocksOk_def)
    have b: "\<forall>q'. qrImage ?r = Some q' \<longrightarrow> dt q' \<le> ?now"
    proof (intro allI impI)
      fix q' assume "qrImage ?r = Some q'"
      from onQRDataReceived_qrImage[OF this] assms show "dt q' \<le> ?now"
        by (auto simp: clocksOk_def)
    qed
    from assms have c: "\<forall>n. lastReceivedDatetime (receiver s) = Some n \<longrightarrow> n \<le> ?now"
      by (auto simp: clocksOk_def)
    from assms a b c show ?thesis
      unfolding st by (simp add: clocksOk_def)
  qed
next
  case (SenderTimer d)
  show ?thesis
  proof (cases "stopSendingTimer (sender s)")
    case False
    with assms SenderTimer show ?thesis
      by (auto simp: clocksOk_def Let_def)
  next
    case True
    let ?now = "senderClock s + 1 + int d"
    let ?r = "snd (stopSending P ?now (sender s))"
    have st: "step P e s = s\<lparr>sender := ?r\<lparr>stopSendingTimer := False\<rparr>, senderClock := ?now\<rparr>"
      using SenderTimer True by (simp add: Let_def)
    have b: "\<forall>q'. qrImage ?r = Some q' \<longrightarrow> dt q' \<le> ?now"
    proof (intro allI impI)
      fix q' assume q: "qrImage ?r = Some q'"
      obtain ou c' where r: "stopSending P ?now (sender s) = (ou, c')"
        by (cases "stopSending P ?now (sender s)") blast
      from stopSending_qrImage[OF r, of q'] q r assms show "dt q' \<le> ?now"
        by (auto simp: clocksOk_def)
    qed
    from assms have c: "\<forall>n. lastReceivedDatetime (receiver s) = Some n \<longrightarrow> n \<le> ?now"
      by (auto simp: clocksOk_def)
    from assms b c show ?thesis
      unfolding st by (simp add: clocksOk_def stopSending_lastReceivedDatetime)
  qed
qed

subsection \<open>Events that change nothing but a clock\<close>

lemma step_ReceiverObserves_noop:
  assumes "qrImage (sender s) = None \<or> \<not> isRunning (receiver s) \<or>
           lastReceivedDatetime (receiver s) = map_option dt (qrImage (sender s))"
  shows "step P (ReceiverObserves d noise) s = s\<lparr>receiverClock := receiverClock s + 1 + int d\<rparr>"
proof (cases "qrImage (sender s)")
  case None
  then show ?thesis by (simp add: Let_def)
next
  case (Some q)
  with assms have "\<not> isRunning (receiver s) \<or>
      lastReceivedDatetime (receiver s) = Some (dt (garble noise q))"
    by (simp add: garble_dt)
  then have "onQRDataReceived P (receiverClock s + 1 + int d) (Some (garble noise q)) (receiver s) =
      (Returned, receiver s)"
    by (cases "isRunning (receiver s)")
      (auto simp: onQRDataReceived_dropped onQRDataReceived_notRunning)
  with Some show ?thesis by (simp add: Let_def)
qed

lemma step_SenderObserves_noop:
  assumes "qrImage (receiver s) = None \<or> \<not> isRunning (sender s) \<or>
           lastReceivedDatetime (sender s) = map_option dt (qrImage (receiver s))"
  shows "step P (SenderObserves d) s = s\<lparr>senderClock := senderClock s + 1 + int d\<rparr>"
proof (cases "qrImage (receiver s)")
  case None
  then show ?thesis by (simp add: Let_def)
next
  case (Some q)
  with assms have "\<not> isRunning (sender s) \<or> lastReceivedDatetime (sender s) = Some (dt q)"
    by simp
  then have "onQRDataReceived P (senderClock s + 1 + int d) (Some q) (sender s) =
      (Returned, sender s)"
    by (cases "isRunning (sender s)")
      (auto simp: onQRDataReceived_dropped onQRDataReceived_notRunning)
  with Some show ?thesis by (simp add: Let_def)
qed

lemma step_SenderTimer_noop:
  assumes "\<not> stopSendingTimer (sender s)"
  shows "step P (SenderTimer d) s = s\<lparr>senderClock := senderClock s + 1 + int d\<rparr>"
  using assms by (simp add: Let_def)

lemma stopSending_effect:
  "lastReceivedDatetime (snd (stopSending P now c)) = lastReceivedDatetime c \<and>
   (qrImage (snd (stopSending P now c)) = None \<or>
    qrImage (snd (stopSending P now c)) = qrImage c) \<and>
   (isRunning (snd (stopSending P now c)) \<longrightarrow> isRunning c) \<and>
   (displayedView c = Some sendFile \<longrightarrow>
      qrImage (snd (stopSending P now c)) = None \<and> \<not> isRunning (snd (stopSending P now c)))"
  by (auto simp: stopSending_def setupSender_def setQRCodeViewer_def reset_def
      updateQRImage_def isSenderReceiverView_def split: option.splits if_splits)

lemma phases_senderClock [simp]:
  "quiet f (s\<lparr>senderClock := x\<rparr>) = quiet f s"
  "awaitingMeta P f k (s\<lparr>senderClock := x\<rparr>) = awaitingMeta P f k s"
  "metaAcked P f k (s\<lparr>senderClock := x\<rparr>) = metaAcked P f k s"
  "chunkShown P f k j (s\<lparr>senderClock := x\<rparr>) = chunkShown P f k j s"
  "chunkAnswered P f k j (s\<lparr>senderClock := x\<rparr>) = chunkAnswered P f k j s"
  "completedShown f (s\<lparr>senderClock := x\<rparr>) = completedShown f s"
  by (simp_all add: quiet_def awaitingMeta_def metaAcked_def chunkShown_def chunkAnswered_def
      completedShown_def)

lemma phases_receiverClock [simp]:
  "quiet f (s\<lparr>receiverClock := x\<rparr>) = quiet f s"
  "awaitingMeta P f k (s\<lparr>receiverClock := x\<rparr>) = awaitingMeta P f k s"
  "metaAcked P f k (s\<lparr>receiverClock := x\<rparr>) = metaAcked P f k s"
  "chunkShown P f k j (s\<lparr>receiverClock := x\<rparr>) = chunkShown P f k j s"
  "chunkAnswered P f k j (s\<lparr>receiverClock := x\<rparr>) = chunkAnswered P f k j s"
  "completedShown f (s\<lparr>receiverClock := x\<rparr>) = completedShown f s"
  by (simp_all add: quiet_def awaitingMeta_def metaAcked_def chunkShown_def chunkAnswered_def
      completedShown_def)

subsection \<open>The invariant of a session, phase by phase\<close>

lemma quiet_step:
  assumes "quiet f s"
  shows "quiet f (step P e s)"
proof (cases e)
  case (ReceiverObserves d noise)
  from assms have "qrImage (sender s) = None \<or> \<not> isRunning (receiver s) \<or>
       lastReceivedDatetime (receiver s) = map_option dt (qrImage (sender s))"
    by (simp add: quiet_def)
  from step_ReceiverObserves_noop[OF this] assms ReceiverObserves show ?thesis by simp
next
  case (SenderObserves d)
  from assms have "qrImage (receiver s) = None \<or> \<not> isRunning (sender s) \<or>
       lastReceivedDatetime (sender s) = map_option dt (qrImage (receiver s))"
    by (simp add: quiet_def)
  from step_SenderObserves_noop[OF this] assms SenderObserves show ?thesis by simp
next
  case (SenderTimer d)
  show ?thesis
  proof (cases "stopSendingTimer (sender s)")
    case False
    from step_SenderTimer_noop[OF this] assms SenderTimer show ?thesis by simp
  next
    case True
    let ?now = "senderClock s + 1 + int d"
    let ?r = "snd (stopSending P ?now (sender s))"
    have st: "step P e s = s\<lparr>sender := ?r\<lparr>stopSendingTimer := False\<rparr>, senderClock := ?now\<rparr>"
      using SenderTimer True by (simp add: Let_def)
    from stopSending_effect[of P ?now "sender s"] assms show ?thesis
      unfolding st by (auto simp: quiet_def)
  qed
qed

declare step.simps [simp del]





lemma awaitingMeta_step_strong:
  assumes "clocksOk s" and "awaitingMeta P f k s"
  shows "(quiet f (step P e s) \<or>
          (clocksOk (step P e s) \<and>
           (awaitingMeta P f k (step P e s) \<or> metaAcked P f k (step P e s)))) \<and>
         downloads (receiver (step P e s)) = [] \<and>
         qrImage (sender (step P e s)) = qrImage (sender s)"
proof (cases e)
  case (ReceiverObserves d noise)
  from assms(2) obtain q where qS: "qrImage (sender s) = Some q" and k0: "ckTId q = 0"
    by (auto simp: awaitingMeta_def senderAdvertising_def)
  from assms(2) have r: "isRunning (receiver s)"
    and vw: "displayedView (receiver s) = Some receiveFile"
    and fw: "fileWorker (receiver s) = None" and l: "lastReceivedDatetime (receiver s) = None"
    and dl: "downloads (receiver s) = []" and qR: "qrImage (receiver s) = None"
    and adv: "senderAdvertising P f k (sender s)"
    by (simp_all add: awaitingMeta_def)
  let ?now = "receiverClock s + 1 + int d"
  let ?R = "snd (onQRDataReceived P ?now (Some q) (receiver s))"
  have g: "garble noise q = q" using k0 by (simp add: garble_def split: option.splits)
  have st: "step P e s = s\<lparr>receiver := ?R, receiverClock := ?now\<rparr>"
    using ReceiverObserves qS g by (simp add: step.simps Let_def)
  have R: "?R = (case JSON_parse P (bd q) of
              Some (JsonObject m) \<Rightarrow>
                (receiver s)\<lparr>lastReceivedDatetime := Some (dt q),
                  fileWorker := Some (createWriter m),
                  qrImage := Some \<lparr> ckTId = 1, bd = [], dt = ?now \<rparr>\<rparr>
            | _ \<Rightarrow> (receiver s)\<lparr>lastReceivedDatetime := Some (dt q)\<rparr>)"
    using r vw fw l k0 by (intro receiver_handles_metaInfo) simp_all
  have dl': "downloads (receiver (step P e s)) = []"
    unfolding st using R dl by (simp split: option.splits json.splits)
  have im: "qrImage (sender (step P e s)) = qrImage (sender s)"
    unfolding st by simp
  show ?thesis
  proof (cases "\<exists>m. JSON_parse P (bd q) = Some (JsonObject m)")
    case False
    with R have "?R = (receiver s)\<lparr>lastReceivedDatetime := Some (dt q)\<rparr>"
      by (simp split: option.splits json.splits)
    with qS qR dl have "quiet f (step P e s)"
      unfolding st by (simp add: quiet_def)
    with dl' im show ?thesis by simp
  next
    case True
    then obtain m where Some: "JSON_parse P (bd q) = Some (JsonObject m)" by blast
    have "receiverCollecting (createWriter m) ?R \<and> lastChunkBlob (createWriter m) = None \<and>
        writerBuffer (createWriter m) = []"
      using R Some r vw dl
      by (simp add: receiverCollecting_def createWriter_def newFileWorker_def)
    with R Some qS adv have "metaAcked P f k (step P e s)"
      unfolding st by (auto simp: metaAcked_def)
    with clocksOk_step[OF assms(1), of P e] dl' im show ?thesis by simp
  qed
next
  case (SenderObserves d)
  from assms(2) have "qrImage (receiver s) = None" by (simp add: awaitingMeta_def)
  then have "step P (SenderObserves d) s = s\<lparr>senderClock := senderClock s + 1 + int d\<rparr>"
    by (intro step_SenderObserves_noop) simp
  with assms(2) SenderObserves clocksOk_step[OF assms(1), of P e] show ?thesis
    by (simp add: awaitingMeta_def[of P f k s])
next
  case (SenderTimer d)
  from assms(2) have "\<not> stopSendingTimer (sender s)"
    by (simp add: awaitingMeta_def senderAdvertising_def)
  then have "step P (SenderTimer d) s = s\<lparr>senderClock := senderClock s + 1 + int d\<rparr>"
    by (rule step_SenderTimer_noop)
  with assms(2) SenderTimer clocksOk_step[OF assms(1), of P e] show ?thesis
    by (simp add: awaitingMeta_def[of P f k s])
qed


lemma metaAcked_step_strong:
  assumes "clocksOk s" and "metaAcked P f k s"
  shows "(quiet f (step P e s) \<or>
          (clocksOk (step P e s) \<and>
           (metaAcked P f k (step P e s) \<or> chunkShown P f k (Suc 0) (step P e s)))) \<and>
         downloads (receiver (step P e s)) = [] \<and>
         (fileChunks (updateChunkSize k (createReader f)) \<le> 0 \<longrightarrow>
            (quiet f (step P e s) \<or> (clocksOk (step P e s) \<and> metaAcked P f k (step P e s))) \<and>
            (qrImage (sender (step P e s)) = None \<or>
             qrImage (sender (step P e s)) = qrImage (sender s)))"
proof (cases e)
  case (ReceiverObserves d noise)
  from assms(2) have "lastReceivedDatetime (receiver s) = map_option dt (qrImage (sender s))"
    by (simp add: metaAcked_def)
  then have "step P (ReceiverObserves d noise) s =
      s\<lparr>receiverClock := receiverClock s + 1 + int d\<rparr>"
    by (intro step_ReceiverObserves_noop) simp
  with assms(2) ReceiverObserves clocksOk_step[OF assms(1), of P e] show ?thesis
    by (auto simp: metaAcked_def[of P f k s] receiverCollecting_def)
next
  case (SenderTimer d)
  from assms(2) have "\<not> stopSendingTimer (sender s)"
    by (simp add: metaAcked_def senderAdvertising_def)
  then have "step P (SenderTimer d) s = s\<lparr>senderClock := senderClock s + 1 + int d\<rparr>"
    by (rule step_SenderTimer_noop)
  with assms(2) SenderTimer clocksOk_step[OF assms(1), of P e] show ?thesis
    by (auto simp: metaAcked_def[of P f k s] receiverCollecting_def)
next
  case (SenderObserves d)
  from assms(2) obtain q wr qS where qR: "qrImage (receiver s) = Some q" and k1: "ckTId q = 1"
    and adv: "senderAdvertising P f k (sender s)"
    and col: "receiverCollecting wr (receiver s)"
    and pend: "lastChunkBlob wr = None" and buf: "writerBuffer wr = []"
    and lR: "lastReceivedDatetime (receiver s) = map_option dt (qrImage (sender s))"
    and qS: "qrImage (sender s) = Some qS"
    by (auto simp: metaAcked_def senderAdvertising_def)
  from adv have run: "isRunning (sender s)" and vw: "displayedView (sender s) = Some sendFile"
    and tm: "\<not> stopSendingTimer (sender s)"
    by (simp_all add: senderAdvertising_def)
  from col have dl: "downloads (receiver s) = []" by (simp add: receiverCollecting_def)
  let ?now = "senderClock s + 1 + int d"
  let ?S = "snd (onQRDataReceived P ?now (Some q) (sender s))"
  let ?N = "fileChunks (updateChunkSize k (createReader f))"
  have st: "step P e s = s\<lparr>sender := ?S, senderClock := ?now\<rparr>"
    using SenderObserves qR by (simp add: step.simps Let_def)
  note S = sender_handles_metaInfoReceived[OF adv k1, of ?now]
  have fresh: "lastReceivedDatetime (receiver s) \<noteq> Some ?now"
    using assms(1) by (auto simp: clocksOk_def)
  have dl': "downloads (receiver (step P e s)) = []"
    unfolding st using dl by simp
  show ?thesis
  proof (cases "?N \<le> 0")
    case True
    with S qR qS lR dl have "quiet f (step P e s)"
      unfolding st by (auto simp: quiet_def)
    moreover from S True have "qrImage (sender (step P e s)) = None \<or>
        qrImage (sender (step P e s)) = qrImage (sender s)"
      unfolding st by (simp split: if_splits)
    ultimately show ?thesis using dl' by simp
  next
    case False
    show ?thesis
    proof (cases "blobAsBase64 P (chunkAt f k 0)")
      case None
      with S False qR qS lR dl have "quiet f (step P e s)"
        unfolding st by (auto simp: quiet_def)
      with dl' False show ?thesis by simp
    next
      case (Some b)
      with S False have S': "?S = (sender s)\<lparr>lastReceivedDatetime := Some (dt q),
               fileWorker := Some (senderWorker P f k (Suc 0)),
               qrImage := Some \<lparr> ckTId = 2, bd = b, dt = ?now \<rparr>\<rparr>"
        by simp
      have tx: "senderTransmitting P f k (Suc 0) b ?S"
        unfolding S' using run vw tm False Some by (simp add: senderTransmitting_def)
      have cm: "writerCommitPendingChunk wr = wr"
        using pend by (simp add: writerCommitPendingChunk_noop)
      have "chunkShown P f k (Suc 0) (step P e s)"
        unfolding st chunkShown_def
        using tx col cm buf qR fresh
        by (intro exI[of _ b] exI[of _ wr]) (simp add: S' committed_def)
      with clocksOk_step[OF assms(1), of P e] dl' False show ?thesis by simp
    qed
  qed
qed






text \<open>
  The first channel is the second one restricted: a step is the reading that keeps tag and
  time stamp of the envelope shown. Conversely a faithful reading is a step whose noise, if
  any, has another digest than the body shown.
\<close>

lemma step_observe:
  "step P (ReceiverObserves d noise) s =
     observe P (ReceiverReads d (map_option (garble noise) (qrImage (sender s)))) s"
  "step P (SenderObserves d) s = observe P (SenderReads d None) s"
  "step P (SenderTimer d) s = observe P (TimerFires d) s"
  by (simp_all add: step.simps Let_def split: option.splits)




lemma startSession_awaitingMeta:
  "awaitingMeta P f k (startSession P f k tS tR) \<and> clocksOk (startSession P f k tS tR)"
proof -
  let ?s = "startSession P f k tS tR"
  have S: "sender ?s = (fileChosen f k)
      \<lparr>scanning := True, isRunning := True,
       qrImage := Some \<lparr> ckTId = 0,
         bd = trim (JSON_stringify P (metaInfoOf (updateChunkSize k (createReader f)))),
         dt = tS \<rparr>\<rparr>"
    by (simp add: startSession_def startSending_def fileChosen_def pageLoaded_def
        isSenderReceiverView_def updateQRImage_def Let_def)
  have R: "receiver ?s = (pageLoaded receiveFile)\<lparr>scanning := True, isRunning := True\<rparr>"
    by (simp add: startSession_def startReceiving_def pageLoaded_def isSenderReceiverView_def)
  have c: "senderClock ?s = tS" "receiverClock ?s = tR" by (simp_all add: startSession_def)
  have "awaitingMeta P f k ?s"
    unfolding awaitingMeta_def senderAdvertising_def
    by (subst S R)+ (simp add: fileChosen_def pageLoaded_def senderWorker_def)
  moreover have "clocksOk ?s"
    unfolding clocksOk_def by (subst S R)+ (simp add: c fileChosen_def pageLoaded_def)
  ultimately show ?thesis by simp
qed



subsection \<open>Completed sessions\<close>






subsection \<open>The empty file\<close>

lemma quiet_step_frame:
  assumes "quiet f s"
  shows "receiver (step P e s) = receiver s \<and>
         (qrImage (sender (step P e s)) = None \<or>
          qrImage (sender (step P e s)) = qrImage (sender s))"
proof (cases e)
  case (ReceiverObserves d noise)
  from assms have "qrImage (sender s) = None \<or> \<not> isRunning (receiver s) \<or>
       lastReceivedDatetime (receiver s) = map_option dt (qrImage (sender s))"
    by (simp add: quiet_def)
  from step_ReceiverObserves_noop[OF this, of P d noise] ReceiverObserves show ?thesis by simp
next
  case (SenderObserves d)
  from assms have "qrImage (receiver s) = None \<or> \<not> isRunning (sender s) \<or>
       lastReceivedDatetime (sender s) = map_option dt (qrImage (receiver s))"
    by (simp add: quiet_def)
  from step_SenderObserves_noop[OF this, of P d] SenderObserves show ?thesis by simp
next
  case (SenderTimer d)
  show ?thesis
  proof (cases "stopSendingTimer (sender s)")
    case False
    from step_SenderTimer_noop[OF this, of P d] SenderTimer show ?thesis by simp
  next
    case True
    let ?now = "senderClock s + 1 + int d"
    let ?r = "snd (stopSending P ?now (sender s))"
    have st: "step P e s = s\<lparr>sender := ?r\<lparr>stopSendingTimer := False\<rparr>, senderClock := ?now\<rparr>"
      using SenderTimer True by (simp add: step.simps Let_def)
    from stopSending_effect[of P ?now "sender s"] show ?thesis
      unfolding st by auto
  qed
qed

lemma emptyFileInv_step:
  assumes "emptyFileInv P f k s" and "fileChunks (updateChunkSize k (createReader f)) \<le> 0"
  shows "emptyFileInv P f k (step P e s)"
proof -
  from assms(1) have dl: "downloads (receiver s) = []"
    and im: "\<forall>q. qrImage (sender s) = Some q \<longrightarrow> ckTId q = 0"
    and ph: "quiet f s \<or> (clocksOk s \<and> (awaitingMeta P f k s \<or> metaAcked P f k s))"
    by (simp_all add: emptyFileInv_def)
  from ph consider (q) "quiet f s" | (a) "clocksOk s" "awaitingMeta P f k s"
    | (m) "clocksOk s" "metaAcked P f k s" by blast
  then show ?thesis
  proof cases
    case q
    from quiet_step[OF q, of P e] quiet_step_frame[OF q, of P e] dl im show ?thesis
      by (auto simp: emptyFileInv_def)
  next
    case a
    from awaitingMeta_step_strong[OF a, of e] im show ?thesis
      by (auto simp: emptyFileInv_def)
  next
    case m
    from metaAcked_step_strong[OF m, of e] assms(2) im show ?thesis
      by (auto simp: emptyFileInv_def)
  qed
qed

lemma emptyFileInv_run:
  assumes "emptyFileInv P f k s" and "fileChunks (updateChunkSize k (createReader f)) \<le> 0"
  shows "emptyFileInv P f k (run P es s)"
  using assms(1)
proof (induction es arbitrary: s)
  case Nil
  then show ?case by (simp add: run_def)
next
  case (Cons e es)
  from emptyFileInv_step[OF Cons.prems assms(2), of e]
  have "emptyFileInv P f k (run P es (step P e s))" by (rule Cons.IH)
  then show ?case by (simp add: run_def)
qed

text \<open>
  C2, what the code does: for an empty file the chunk count is 0, and in no run of the
  session does the Sender show the \<^verbatim>\<open>completed\<close> envelope or the Receiver download
  anything. When the Sender sees \<^verbatim>\<open>meta_info_received\<close>, \<^verbatim>\<open>readNextChunk\<close> leaves the
  cached wire form null and \<^verbatim>\<open>_updateQRImage(okNext, null)\<close> clears the QR image (or
  throws when the view holds no image).
\<close>

theorem C2_empty_file_never_completed:
  assumes "content f = []" and "0 < k"
  shows "fileChunks (updateChunkSize k (createReader f)) = 0 \<and>
         downloads (receiver (run P es (startSession P f k tS tR))) = [] \<and>
         (\<forall>q. qrImage (sender (run P es (startSession P f k tS tR))) = Some q \<longrightarrow> ckTId q \<noteq> 50)"
proof -
  have n: "fileChunks (updateChunkSize k (createReader f)) = 0"
    using assms(1)
    by (simp add: updateChunkSize_def createReader_def newFileWorker_def Let_def mathCeilDiv_def)
  have "emptyFileInv P f k (startSession P f k tS tR)"
    using startSession_awaitingMeta[of P f k tS tR]
    by (auto simp: emptyFileInv_def awaitingMeta_def senderAdvertising_def)
  then have "emptyFileInv P f k (run P es (startSession P f k tS tR))"
    using n by (intro emptyFileInv_run) simp_all
  with n show ?thesis by (auto simp: emptyFileInv_def)
qed

theorem C2_empty_file_never_completed_witness:
  "content demoEmptyFile = [] \<and> (0::int) < 128 \<and>
   fileChunks (updateChunkSize 128 (createReader demoEmptyFile)) = 0 \<and>
   downloads (receiver (run demoPlatform [ReceiverObserves 0 None, SenderObserves 0,
      ReceiverObserves 0 None, SenderObserves 0]
      (startSession demoPlatform demoEmptyFile 128 100 500))) = [] \<and>
   qrImage (sender (run demoPlatform [ReceiverObserves 0 None, SenderObserves 0]
      (startSession demoPlatform demoEmptyFile 128 100 500))) = None \<and>
   qrImage (receiver (run demoPlatform [ReceiverObserves 0 None, SenderObserves 0]
      (startSession demoPlatform demoEmptyFile 128 100 500))) =
     Some \<lparr> ckTId = 1, bd = [], dt = 501 \<rparr>"
proof -
  have h1: "content demoEmptyFile = []" by code_simp
  have h2: "(0::int) < 128" by simp
  have e1: "qrImage (sender (run demoPlatform [ReceiverObserves 0 None, SenderObserves 0]
      (startSession demoPlatform demoEmptyFile 128 100 500))) = None" by code_simp
  have e2: "qrImage (receiver (run demoPlatform [ReceiverObserves 0 None, SenderObserves 0]
      (startSession demoPlatform demoEmptyFile 128 100 500))) =
     Some \<lparr> ckTId = 1, bd = [], dt = 501 \<rparr>" by code_simp
  from C2_empty_file_never_completed[OF h1 h2, of demoPlatform
      "[ReceiverObserves 0 None, SenderObserves 0, ReceiverObserves 0 None, SenderObserves 0]"
      100 500] h1 h2 e1 e2
  show ?thesis by blast
qed

end
